theory Spec2Isabelle
  imports Main "HOL-Library.AList"
begin

section \<open>Master-slave replication over a line protocol\<close>

text \<open>
  The development follows the two Go programs of the repository: the master
  (\<^verbatim>\<open>master.go\<close>) and the slave agent.  Go strings are byte sequences and are
  modelled as \<^typ>\<open>string\<close> (a list of 8-bit characters).  The relational store sits
  behind the \<^verbatim>\<open>database/sql\<close> handle \<^verbatim>\<open>db\<close>; it is external to the repository and is
  taken as a parameter: a record of the operations the programs invoke on it, each
  returning either the driver's error text (\<open>Inl\<close>) or its result (\<open>Inr\<close>).
\<close>

subsection \<open>The functions of Go's \<^verbatim>\<open>strings\<close> package that the programs call\<close>

definition newline :: char where
  "newline = CHR 0x0A"

definition carriageReturn :: char where
  "carriageReturn = CHR 0x0D"

text \<open>\<^verbatim>\<open>strings.ReplaceAll(s, old, new)\<close> for a one-byte \<^verbatim>\<open>old\<close>, the only way the
  programs call it.\<close>

definition ReplaceAll :: "string \<Rightarrow> char \<Rightarrow> string \<Rightarrow> string" where
  "ReplaceAll s old new = concat (map (\<lambda>c. if c = old then new else [c]) s)"

definition HasPrefix :: "string \<Rightarrow> string \<Rightarrow> bool" where
  "HasPrefix s p = (take (length p) s = p)"

fun Contains :: "string \<Rightarrow> string \<Rightarrow> bool" where
  "Contains [] sub = (sub = [])"
| "Contains (c # s) sub = (HasPrefix (c # s) sub \<or> Contains s sub)"

text \<open>\<^verbatim>\<open>strings.Split(s, sep)\<close> for a one-byte separator: the pieces between the
  separators, always at least one piece.\<close>

fun Split :: "string \<Rightarrow> char \<Rightarrow> string list" where
  "Split [] sep = [[]]"
| "Split (c # s) sep =
     (if c = sep then [] # Split s sep
      else (case Split s sep of
              [] \<Rightarrow> [[c]]
            | p # ps \<Rightarrow> (c # p) # ps))"

text \<open>\<^verbatim>\<open>strings.SplitN(s, sep, 2)\<close> for a one-byte separator: split at the first
  separator only.\<close>

definition SplitN2 :: "string \<Rightarrow> char \<Rightarrow> string list" where
  "SplitN2 s sep =
     (if sep \<in> set s then [takeWhile (\<lambda>c. c \<noteq> sep) s, tl (dropWhile (\<lambda>c. c \<noteq> sep) s)]
      else [s])"

text \<open>\<^verbatim>\<open>strings.Join\<close>.\<close>

fun Join :: "string list \<Rightarrow> string \<Rightarrow> string" where
  "Join [] sep = []"
| "Join [x] sep = x"
| "Join (x # y # ys) sep = x @ sep @ Join (y # ys) sep"

text \<open>\<^verbatim>\<open>strings.ToUpper\<close>.  ASCII letters are mapped to upper case.  Go maps
  runes, not bytes: the two non-ASCII runes whose upper case is an ASCII letter,
  U+0131 (bytes C4 B1, upper case \<open>I\<close>) and U+017F (bytes C5 BF, upper case \<open>S\<close>), are
  mapped as Go maps them.  Every other non-ASCII rune has a non-ASCII upper case and is
  left as it is, which makes no difference to a comparison with an ASCII keyword, the
  only use the programs make of the result.\<close>

definition upperByte :: "char \<Rightarrow> char" where
  "upperByte c =
     (case map_of (zip ''abcdefghijklmnopqrstuvwxyz'' ''ABCDEFGHIJKLMNOPQRSTUVWXYZ'') c of
        Some u \<Rightarrow> u
      | None \<Rightarrow> c)"

fun ToUpper :: "string \<Rightarrow> string" where
  "ToUpper [] = []"
| "ToUpper [c] = [upperByte c]"
| "ToUpper (c # d # s) =
     (if c = CHR 0xC4 \<and> d = CHR 0xB1 then CHR ''I'' # ToUpper s
      else if c = CHR 0xC5 \<and> d = CHR 0xBF then CHR ''S'' # ToUpper s
      else upperByte c # ToUpper (d # s))"

text \<open>\<^verbatim>\<open>unicode.IsSpace\<close> on the rune at the head of a string: the number of bytes
  of that rune when it is white space, and 0 otherwise.  The white-space runes are
  tab, line feed, vertical tab, form feed, carriage return, space, U+0085, U+00A0,
  U+1680, U+2000 to U+200A, U+2028, U+2029, U+202F, U+205F and U+3000, here in UTF-8.\<close>

definition spaceWidth :: "string \<Rightarrow> nat" where
  "spaceWidth s =
     (case map of_char (take 3 s) :: nat list of
        [] \<Rightarrow> 0
      | a # r \<Rightarrow>
          if (9 \<le> a \<and> a \<le> 13) \<or> a = 32 then 1
          else if a = 0xC2 \<and> (take 1 r = [0x85] \<or> take 1 r = [0xA0]) then 2
          else if a = 0xE1 \<and> r = [0x9A, 0x80] then 3
          else if a = 0xE2 \<and> length r = 2 \<and> hd r = 0x80 \<and>
                  ((0x80 \<le> r ! 1 \<and> r ! 1 \<le> 0x8A) \<or> r ! 1 = 0xA8 \<or> r ! 1 = 0xA9 \<or> r ! 1 = 0xAF)
               then 3
          else if a = 0xE2 \<and> r = [0x81, 0x9F] then 3
          else if a = 0xE3 \<and> r = [0x80, 0x80] then 3
          else 0)"

text \<open>\<^verbatim>\<open>strings.Fields\<close>: the maximal runs of bytes between white-space runes.  The
  second argument counts the bytes of a white-space rune still to be skipped, the third
  is the field being collected.\<close>

fun fieldsFrom :: "string \<Rightarrow> nat \<Rightarrow> string \<Rightarrow> string list" where
  "fieldsFrom [] k cur = (if cur = [] then [] else [cur])"
| "fieldsFrom (c # s) k cur =
     (if 0 < k then fieldsFrom s (k - 1) cur
      else if 0 < spaceWidth (c # s)
           then (if cur = [] then [] else [cur]) @ fieldsFrom s (spaceWidth (c # s) - 1) []
           else fieldsFrom s 0 (cur @ [c]))"

definition Fields :: "string \<Rightarrow> string list" where
  "Fields s = fieldsFrom s 0 []"

text \<open>\<^verbatim>\<open>strings.TrimSpace\<close>: leading and trailing white-space runes removed.  A
  trailing rune is recognised on the reversed string by the reversed byte patterns.\<close>

fun trimLeft :: "string \<Rightarrow> nat \<Rightarrow> string" where
  "trimLeft [] k = []"
| "trimLeft (c # s) k =
     (if 0 < k then trimLeft s (k - 1)
      else if 0 < spaceWidth (c # s) then trimLeft s (spaceWidth (c # s) - 1)
      else c # s)"

definition spaceWidthLast :: "string \<Rightarrow> nat" where
  "spaceWidthLast s =
     (let n = length s in
      if 1 \<le> n \<and> spaceWidth (drop (n - 1) s) = 1 then 1
      else if 2 \<le> n \<and> spaceWidth (drop (n - 2) s) = 2 then 2
      else if 3 \<le> n \<and> spaceWidth (drop (n - 3) s) = 3 then 3
      else 0)"

function trimRight :: "string \<Rightarrow> string" where
  "trimRight s =
     (if 0 < spaceWidthLast s then trimRight (take (length s - spaceWidthLast s) s) else s)"
  by pat_completeness auto
termination
  by (relation "measure length") (auto simp: spaceWidthLast_def Let_def split: if_splits)

definition TrimSpace :: "string \<Rightarrow> string" where
  "TrimSpace s = trimRight (trimLeft s 0)"

subsection \<open>The consistency checker of the slave\<close>

text \<open>A Go \<^verbatim>\<open>map[string]int\<close> is an association list with distinct keys; its
  order is the (unspecified) order in which \<^verbatim>\<open>range\<close> visits it.\<close>

type_synonym gomap = "(string \<times> int) list"

datatype verdict = Match | Mismatch | Missing | Extra

text \<open>A value that \<^verbatim>\<open>rows.Scan\<close> stores in an \<^verbatim>\<open>interface{}\<close>: nil, a byte slice,
  a string, or a value of another type, which is kept as the text that the verb
  \<^verbatim>\<open>%v\<close> prints for it.\<close>

datatype val = VNil | VBytes string | VString string | VOther string

text \<open>The result set of a query: \<^verbatim>\<open>rows.Columns()\<close>, and for every \<^verbatim>\<open>rows.Next()\<close>
  the outcome of \<^verbatim>\<open>rows.Scan\<close>.\<close>

record page =
  columns :: "string + string list"
  scans :: "(string + val list) list"

text \<open>The statements that the programs send to the store.  \<open>execute\<close> is \<^verbatim>\<open>db.Exec\<close>
  and \<open>query\<close> is \<^verbatim>\<open>db.Query\<close> on a statement received from outside; the others are
  the fixed statements \<^verbatim>\<open>SHOW TABLES\<close>, \<^verbatim>\<open>SHOW TABLES LIKE '<name>'\<close>,
  \<^verbatim>\<open>SHOW CREATE TABLE <name>\<close> (which scans the table's name and its DDL),
  \<^verbatim>\<open>SELECT COUNT(*) FROM <name>\<close> and
  \<^verbatim>\<open>SELECT * FROM <name> LIMIT <limit> OFFSET <offset>\<close>.  \<open>verifyCreated\<close> stands for
  the read-only check that ends \<^verbatim>\<open>executeCreateTable\<close> (a regular expression finds the
  table's name in the statement and \<^verbatim>\<open>information_schema\<close> is asked for it): the
  error that check returns, if any.\<close>

record 'db storage =
  execute :: "'db \<Rightarrow> string \<Rightarrow> string + 'db"
  query :: "'db \<Rightarrow> string \<Rightarrow> string + page"
  showTables :: "'db \<Rightarrow> string + string list"
  showTablesLike :: "'db \<Rightarrow> string \<Rightarrow> string + string"
  showCreateTable :: "'db \<Rightarrow> string \<Rightarrow> string + string \<times> string"
  countRows :: "'db \<Rightarrow> string \<Rightarrow> string + int"
  selectPage :: "'db \<Rightarrow> string \<Rightarrow> int \<Rightarrow> int \<Rightarrow> string + page"
  verifyCreated :: "'db \<Rightarrow> string \<Rightarrow> string \<Rightarrow> string option"

record 'db slave =
  db :: "'db option"
  localDbName :: string
  replicationInProgress :: bool
  connected :: bool

text \<open>The loop of \<^verbatim>\<open>compareReplication\<close> that fills \<^verbatim>\<open>localTables\<close>: a table whose
  count fails is left out.\<close>

fun collectLocal :: "'db storage \<Rightarrow> 'db \<Rightarrow> string list \<Rightarrow> gomap \<Rightarrow> gomap" where
  "collectLocal S d [] localTables = localTables"
| "collectLocal S d (tableName # rest) localTables =
     (case countRows S d tableName of
        Inl err \<Rightarrow> collectLocal S d rest localTables
      | Inr rowCount \<Rightarrow> collectLocal S d rest (AList.update tableName rowCount localTables))"

text \<open>The first comparison loop, over the master's tables; the accumulator holds the
  lines printed so far and \<^verbatim>\<open>allMatch\<close>.\<close>

fun checkMasterTables ::
  "gomap \<Rightarrow> gomap \<Rightarrow> (string \<times> verdict) list \<times> bool \<Rightarrow> (string \<times> verdict) list \<times> bool" where
  "checkMasterTables [] localTables acc = acc"
| "checkMasterTables ((masterTable, masterCount) # rest) localTables (out, allMatch) =
     (case map_of localTables masterTable of
        None \<Rightarrow> checkMasterTables rest localTables (out @ [(masterTable, Missing)], False)
      | Some localCount \<Rightarrow>
          (if localCount \<noteq> masterCount
           then checkMasterTables rest localTables (out @ [(masterTable, Mismatch)], False)
           else checkMasterTables rest localTables (out @ [(masterTable, Match)], allMatch)))"

text \<open>The second comparison loop, over the local tables.\<close>

fun checkLocalTables ::
  "gomap \<Rightarrow> gomap \<Rightarrow> (string \<times> verdict) list \<times> bool \<Rightarrow> (string \<times> verdict) list \<times> bool" where
  "checkLocalTables [] masterTables acc = acc"
| "checkLocalTables ((localTable, localCount) # rest) masterTables (out, allMatch) =
     (case map_of masterTables localTable of
        None \<Rightarrow> checkLocalTables rest masterTables (out @ [(localTable, Extra)], False)
      | Some c \<Rightarrow> checkLocalTables rest masterTables (out, allMatch))"

record report =
  verdicts :: "(string \<times> verdict) list"
  synchronized :: bool

definition compareTables :: "gomap \<Rightarrow> gomap \<Rightarrow> report" where
  "compareTables masterTables localTables =
     (case checkLocalTables localTables masterTables
             (checkMasterTables masterTables localTables ([], True)) of
        (out, allMatch) \<Rightarrow> \<lparr>verdicts = out, synchronized = allMatch\<rparr>)"

text \<open>\<^verbatim>\<open>compareReplication\<close>: the printed result (or the message of an early return)
  and the slave's state afterwards.\<close>

definition compareReplication ::
  "'db storage \<Rightarrow> 'db slave \<Rightarrow> gomap \<Rightarrow> (string + report) \<times> 'db slave" where
  "compareReplication S st masterTables =
     (case db st of
        None \<Rightarrow> (Inl ''Local database not available'', st)
      | Some d \<Rightarrow>
          (case showTables S d of
             Inl err \<Rightarrow> (Inl (''Error getting local tables: '' @ err), st)
           | Inr names \<Rightarrow>
               (Inr (compareTables masterTables (collectLocal S d names [])), st)))"

text \<open>The verdict of the first loop for one master entry.\<close>

definition classifyMaster :: "gomap \<Rightarrow> string \<Rightarrow> int \<Rightarrow> verdict" where
  "classifyMaster localTables t masterCount =
     (case map_of localTables t of
        None \<Rightarrow> Missing
      | Some localCount \<Rightarrow> if localCount \<noteq> masterCount then Mismatch else Match)"

subsection \<open>Protocol lines and the line reader\<close>

text \<open>\<^verbatim>\<open>fmt.Fprintf(conn, "<type>:%s\n", payload)\<close>: the bytes written for one message.\<close>

definition line :: "string \<Rightarrow> string \<Rightarrow> string" where
  "line msgType payload = msgType @ '':'' @ payload @ [newline]"

text \<open>\<^verbatim>\<open>strconv\<close>-style decimal text of an integer, as the verb \<^verbatim>\<open>%d\<close> prints it.\<close>

function natString :: "nat \<Rightarrow> string" where
  "natString n =
     (if n < 10 then [''0123456789'' ! n]
      else natString (n div 10) @ [''0123456789'' ! (n mod 10)])"
  by pat_completeness auto
termination
  by (relation "measure id") auto

definition intString :: "int \<Rightarrow> string" where
  "intString i = (if i < 0 then CHR ''-'' # natString (nat (- i)) else natString (nat i))"

text \<open>\<^verbatim>\<open>bufio.Scanner\<close> with the split function \<^verbatim>\<open>ScanLines\<close>.  The scanner collects a
  token in a buffer that grows to at most its maximum token size; a line whose end has
  not been found when the buffer holds that many bytes stops the scanner with
  \<^verbatim>\<open>ErrTooLong\<close>.  A line loses its line feed and one trailing carriage return.\<close>

definition MaxScanTokenSize :: nat where
  "MaxScanTokenSize = 64 * 1024"

datatype scan = Token string string | ErrTooLong | EOF

definition dropCR :: "string \<Rightarrow> string" where
  "dropCR data = (if data \<noteq> [] \<and> last data = carriageReturn then butlast data else data)"

definition scanLine :: "nat \<Rightarrow> string \<Rightarrow> scan" where
  "scanLine maxTokenSize input =
     (if input = [] then EOF
      else let data = takeWhile (\<lambda>c. c \<noteq> newline) input in
        if maxTokenSize \<le> length data then ErrTooLong
        else Token (dropCR data) (drop (length data + 1) input))"

text \<open>The master reads its requests with \<^verbatim>\<open>bufio.NewScanner(conn)\<close>, which keeps the
  default maximum; the slave calls \<^verbatim>\<open>scanner.Buffer(buf, 1024*1024)\<close> first.\<close>

definition masterMaxTokenSize :: nat where
  "masterMaxTokenSize = MaxScanTokenSize"

definition slaveMaxTokenSize :: nat where
  "slaveMaxTokenSize = 1024 * 1024"

subsection \<open>The master: bootstrap of a new slave\<close>

definition quote :: char where
  "quote = CHR 0x27"

definition backtick :: char where
  "backtick = CHR 0x60"

text \<open>The text of one scanned value inside the \<^verbatim>\<open>INSERT\<close> statement.\<close>

definition valueString :: "val \<Rightarrow> string" where
  "valueString v =
     (case v of
        VNil \<Rightarrow> ''NULL''
      | VBytes b \<Rightarrow> [quote] @ ReplaceAll b quote [quote, quote] @ [quote]
      | VString str \<Rightarrow> [quote] @ ReplaceAll str quote [quote, quote] @ [quote]
      | VOther shown \<Rightarrow> shown)"

text \<open>The loop that appends the column names to \<^verbatim>\<open>insertQuery\<close>.\<close>

fun addColumnNames :: "string list \<Rightarrow> nat \<Rightarrow> string \<Rightarrow> string" where
  "addColumnNames [] i insertQuery = insertQuery"
| "addColumnNames (colName # rest) i insertQuery =
     addColumnNames rest (i + 1) ((if 0 < i then insertQuery @ '', '' else insertQuery) @ colName)"

definition insertStatement :: "string \<Rightarrow> string list \<Rightarrow> val list \<Rightarrow> string" where
  "insertStatement tableName cols values =
     addColumnNames cols 0 (''INSERT INTO '' @ tableName @ '' ('') @ '') VALUES ('' @
     Join (map valueString values) '', '' @ '')''"

text \<open>The loop over \<^verbatim>\<open>rows.Next()\<close>: a row whose scan fails is skipped.\<close>

fun sendRows :: "string \<Rightarrow> string list \<Rightarrow> (string + val list) list \<Rightarrow> string list" where
  "sendRows tableName cols [] = []"
| "sendRows tableName cols (Inl err # rest) = sendRows tableName cols rest"
| "sendRows tableName cols (Inr values # rest) =
     line ''sync_data'' (insertStatement tableName cols values) # sendRows tableName cols rest"

definition batchSize :: int where
  "batchSize = 100"

text \<open>One pass of the batch loop: a page that cannot be read, or whose columns cannot
  be read, sends nothing.\<close>

definition sendBatch :: "'db storage \<Rightarrow> 'db \<Rightarrow> string \<Rightarrow> int \<Rightarrow> string list" where
  "sendBatch S d tableName offset =
     (case selectPage S d tableName batchSize offset of
        Inl err \<Rightarrow> []
      | Inr rows \<Rightarrow>
          (case columns rows of
             Inl err \<Rightarrow> []
           | Inr cols \<Rightarrow> sendRows tableName cols (scans rows)))"

text \<open>\<^verbatim>\<open>for offset := 0; offset < rowCount; offset += batchSize\<close>.  The counters are
  Go's 64-bit \<^verbatim>\<open>int\<close>; a row count is far below the range where \<^verbatim>\<open>offset\<close> could
  wrap, and the model uses unbounded integers.\<close>

function sendBatches :: "'db storage \<Rightarrow> 'db \<Rightarrow> string \<Rightarrow> int \<Rightarrow> int \<Rightarrow> string list" where
  "sendBatches S d tableName rowCount offset =
     (if offset < rowCount
      then sendBatch S d tableName offset @ sendBatches S d tableName rowCount (offset + batchSize)
      else [])"
  by pat_completeness auto
termination
  by (relation "measure (\<lambda>(S, d, tableName, rowCount, offset). nat (rowCount - offset))")
     (auto simp: batchSize_def)

declare sendBatches.simps [simp del]

text \<open>\<^verbatim>\<open>sendTableData\<close>; the same statements stand, written out a second time, in the
  table loop of \<^verbatim>\<open>sendSchemaToSlave\<close>.\<close>

definition sendTableData :: "'db storage \<Rightarrow> 'db \<Rightarrow> string \<Rightarrow> string list" where
  "sendTableData S d tableName =
     (case countRows S d tableName of
        Inl err \<Rightarrow> []
      | Inr rowCount \<Rightarrow> if rowCount = 0 then [] else sendBatches S d tableName rowCount 0)"

text \<open>The body of the table loop of \<^verbatim>\<open>sendSchemaToSlave\<close>.  The scan of
  \<^verbatim>\<open>SHOW CREATE TABLE\<close> stores the name it reads in the loop variable.\<close>

definition sendTable :: "'db storage \<Rightarrow> 'db \<Rightarrow> string \<Rightarrow> string list" where
  "sendTable S d tableName =
     (case showCreateTable S d tableName of
        Inl err \<Rightarrow> []
      | Inr (scannedName, tableDefinition) \<Rightarrow>
          line ''create_table'' (ReplaceAll tableDefinition newline '' '') #
          (case countRows S d scannedName of
             Inl err \<Rightarrow> []
           | Inr rowCount \<Rightarrow>
               if rowCount = 0 then [] else sendBatches S d scannedName rowCount 0))"

fun sendTables :: "'db storage \<Rightarrow> 'db \<Rightarrow> string list \<Rightarrow> string list" where
  "sendTables S d [] = []"
| "sendTables S d (tableName # rest) = sendTable S d tableName @ sendTables S d rest"

definition sendSchemaToSlave :: "'db storage \<Rightarrow> 'db \<Rightarrow> string \<Rightarrow> string list \<Rightarrow> string list" where
  "sendSchemaToSlave S d dbName tables =
     line ''init_replication'' dbName # line ''create_db'' dbName #
     sendTables S d tables @ [line ''replication_complete'' ''done'']"

subsection \<open>The master: requests of a connected slave\<close>

text \<open>The globals of the master: its database, the database's name, the table list and
  the registry of slave connections (a Go map from address to connection).\<close>

record ('db, 'c) master =
  mdb :: 'db
  dbName :: string
  tables :: "string list"
  slaves :: "(string \<times> 'c) list"

text \<open>The broadcast loop of \<^verbatim>\<open>executeQuery\<close>.\<close>

fun replicateTo :: "(string \<times> 'c) list \<Rightarrow> 'c \<Rightarrow> string \<Rightarrow> ('c \<times> string) list" where
  "replicateTo [] conn stmt = []"
| "replicateTo ((addr, slaveConn) # rest) conn stmt =
     (if slaveConn \<noteq> conn then [(slaveConn, line ''replicate_query'' stmt)] else []) @
     replicateTo rest conn stmt"

definition executeQuery ::
  "'db storage \<Rightarrow> ('db, 'c) master \<Rightarrow> string \<Rightarrow> 'c \<Rightarrow> ('db, 'c) master \<times> ('c \<times> string) list" where
  "executeQuery S st stmt conn =
     (case execute S (mdb st) stmt of
        Inl err \<Rightarrow> (st, [(conn, line ''error'' err)])
      | Inr d \<Rightarrow>
          (st\<lparr>mdb := d\<rparr>,
           (conn, line ''success'' ''query executed'') # replicateTo (slaves st) conn stmt))"

definition selectString :: "val \<Rightarrow> string" where
  "selectString v =
     (case v of VNil \<Rightarrow> ''NULL'' | VBytes b \<Rightarrow> b | VString str \<Rightarrow> str | VOther shown \<Rightarrow> shown)"

fun selectRows :: "(string + val list) list \<Rightarrow> string list" where
  "selectRows [] = []"
| "selectRows (Inl err # rest) = selectRows rest"
| "selectRows (Inr values # rest) =
     (Join (map selectString values) '','' @ [newline]) # selectRows rest"

definition executeSelect :: "'db storage \<Rightarrow> 'db \<Rightarrow> string \<Rightarrow> string list" where
  "executeSelect S d stmt =
     (case query S d stmt of
        Inl err \<Rightarrow> [line ''error'' err]
      | Inr rows \<Rightarrow>
          (case columns rows of
             Inl err \<Rightarrow> [line ''error'' err]
           | Inr cols \<Rightarrow>
               line ''success'' (natString (length cols)) # (Join cols '','' @ [newline]) #
               selectRows (scans rows) @ [''END'' @ [newline]]))"

fun tableInfos :: "'db storage \<Rightarrow> 'db \<Rightarrow> string list \<Rightarrow> string list" where
  "tableInfos S d [] = []"
| "tableInfos S d (tableName # rest) =
     (case countRows S d tableName of
        Inl err \<Rightarrow> tableInfos S d rest
      | Inr rowCount \<Rightarrow>
          line ''table'' (tableName @ '':'' @ intString rowCount) # tableInfos S d rest)"

definition handleVerifyReplication :: "'db storage \<Rightarrow> 'db \<Rightarrow> string list" where
  "handleVerifyReplication S d =
     (case showTables S d of
        Inl err \<Rightarrow> [line ''error'' (''Failed to get tables: '' @ err)]
      | Inr names \<Rightarrow>
          line ''verification_data'' ''begin'' # tableInfos S d names @
          [line ''verification_data'' ''end''])"

definition TableExists :: "'db storage \<Rightarrow> 'db \<Rightarrow> string \<Rightarrow> bool" where
  "TableExists S d tableName =
     (case showTablesLike S d tableName of Inl err \<Rightarrow> False | Inr existingTable \<Rightarrow> True)"

definition sendTableSchema :: "'db storage \<Rightarrow> 'db \<Rightarrow> string \<Rightarrow> string list" where
  "sendTableSchema S d tableName =
     (if \<not> TableExists S d tableName
      then [line ''error'' (''table '' @ [quote] @ tableName @ [quote] @ '' does not exist on master'')]
      else
        (case showCreateTable S d tableName of
           Inl err \<Rightarrow> [line ''error'' (''Failed to get table schema: '' @ err)]
         | Inr (scannedName, tableDefinition) \<Rightarrow>
             line ''create_table'' (ReplaceAll tableDefinition newline '' '') #
             sendTableData S d scannedName))"

text \<open>One pass of the request loop of \<^verbatim>\<open>handleSlaveConnection\<close>.\<close>

definition handleRequest ::
  "'db storage \<Rightarrow> ('db, 'c) master \<Rightarrow> 'c \<Rightarrow> string \<Rightarrow> ('db, 'c) master \<times> ('c \<times> string) list" where
  "handleRequest S st conn request =
     (let parts = SplitN2 request (CHR '':'') in
      if length parts \<noteq> 2 then (st, [(conn, line ''error'' ''invalid request format'')])
      else let operation = parts ! 0; stmt = parts ! 1 in
        if operation = ''insert'' then executeQuery S st stmt conn
        else if operation = ''update'' then executeQuery S st stmt conn
        else if operation = ''delete'' then executeQuery S st stmt conn
        else if operation = ''select'' then (st, map (Pair conn) (executeSelect S (mdb st) stmt))
        else if operation = ''verify_replication''
          then (st, map (Pair conn) (handleVerifyReplication S (mdb st)))
        else if operation = ''get_table_schema''
          then (st, map (Pair conn) (sendTableSchema S (mdb st) stmt))
        else (st, [(conn, line ''error'' ''unsupported operation'')]))"

text \<open>The request loop: the scanner hands over one line at a time until the input ends
  or a line is too long for it.\<close>

function serve ::
  "'db storage \<Rightarrow> ('db, 'c) master \<Rightarrow> 'c \<Rightarrow> string \<Rightarrow> ('db, 'c) master \<times> ('c \<times> string) list" where
  "serve S st conn input =
     (case scanLine masterMaxTokenSize input of
        Token request rest \<Rightarrow>
          (case handleRequest S st conn request of
             (st', out) \<Rightarrow>
               (case serve S st' conn rest of (st'', out') \<Rightarrow> (st'', out @ out')))
      | ErrTooLong \<Rightarrow> (st, [])
      | EOF \<Rightarrow> (st, []))"
  by pat_completeness auto
termination
  by (relation "measure (\<lambda>(S, st, conn, input). length input)")
     (auto simp: scanLine_def Let_def split: if_splits)

declare serve.simps [simp del]

text \<open>\<^verbatim>\<open>handleSlaveConnection\<close>: register, bootstrap, serve requests, deregister.\<close>

definition handleSlaveConnection ::
  "'db storage \<Rightarrow> ('db, 'c) master \<Rightarrow> 'c \<Rightarrow> string \<Rightarrow> string \<Rightarrow>
     ('db, 'c) master \<times> ('c \<times> string) list" where
  "handleSlaveConnection S st conn addr input =
     (let st1 = st\<lparr>slaves := AList.update addr conn (slaves st)\<rparr>;
          bootstrap = map (Pair conn) (sendSchemaToSlave S (mdb st1) (dbName st1) (tables st1))
      in case serve S st1 conn input of
           (st2, out) \<Rightarrow> (st2\<lparr>slaves := AList.delete addr (slaves st2)\<rparr>, bootstrap @ out))"

subsection \<open>The master: creating a table\<close>

definition data_type :: "string list" where
  "data_type = [''INT'', ''VARCHAR(100)'', ''FLOAT'', ''TEXT'']"

datatype failure = IndexOutOfRange | Fatal string

text \<open>The loop of \<^verbatim>\<open>CreateTable\<close> that appends the columns entered by the operator, each
  a name and the index of its type; an index outside \<^verbatim>\<open>data_type\<close> panics.\<close>

fun addAttributes :: "(string \<times> int) list \<Rightarrow> string \<Rightarrow> failure + string" where
  "addAttributes [] stmt = Inr stmt"
| "addAttributes ((name, typ) # rest) stmt =
     (if 0 \<le> typ \<and> typ < int (length data_type)
      then addAttributes rest (stmt @ '', '' @ name @ '' '' @ data_type ! nat typ)
      else Inl IndexOutOfRange)"

fun toAll :: "(string \<times> 'c) list \<Rightarrow> string \<Rightarrow> ('c \<times> string) list" where
  "toAll [] text = []"
| "toAll ((addr, conn) # rest) text = (conn, text) # toAll rest text"

definition CreateTable ::
  "'db storage \<Rightarrow> ('db, 'c) master \<Rightarrow> string \<Rightarrow> (string \<times> int) list \<Rightarrow>
     failure + ('db, 'c) master \<times> ('c \<times> string) list" where
  "CreateTable S st name attrs =
     (case addAttributes attrs
             (''CREATE TABLE IF NOT EXISTS '' @ name @ '' (id INT PRIMARY KEY AUTO_INCREMENT'') of
        Inl panic \<Rightarrow> Inl panic
      | Inr opened \<Rightarrow>
          (let stmt = opened @ '')'' in
           case execute S (mdb st) stmt of
             Inl err \<Rightarrow> Inl (Fatal (''Error creating table: '' @ err))
           | Inr d \<Rightarrow>
               (let tableDefinition =
                      (case showCreateTable S d name of
                         Inl err \<Rightarrow> stmt
                       | Inr (scannedName, definition) \<Rightarrow> definition);
                    encodedDef =
                      ReplaceAll (ReplaceAll tableDefinition newline '' '') carriageReturn '' ''
                in Inr (st\<lparr>mdb := d\<rparr>,
                        toAll (slaves st) (line ''notification'' (''Table created: '' @ name)) @
                        toAll (slaves st) (line ''create_table'' encodedDef)))))"

subsection \<open>The slave: applying the messages of the master\<close>

text \<open>What one pass of the receive loop of \<^verbatim>\<open>listenToMaster\<close> does: the globals
  afterwards, the lines written to the master, the statements handed to \<^verbatim>\<open>db.Exec\<close>,
  and whether the loop goes on or the goroutine panics.\<close>

datatype control = Continue | Panic

record 'db effect =
  after :: "'db slave"
  sent :: "string list"
  executed :: "string list"
  control :: control

definition executeLocalQuery ::
  "'db storage \<Rightarrow> 'db slave \<Rightarrow> string \<Rightarrow> string option \<times> 'db slave \<times> string list" where
  "executeLocalQuery S st stmt =
     (case db st of
        None \<Rightarrow> (Some ''local database connection not established'', st, [])
      | Some d \<Rightarrow>
          (case execute S d stmt of
             Inl err \<Rightarrow> (Some (''local query execution error: '' @ err), st, [stmt])
           | Inr d' \<Rightarrow> (None, st\<lparr>db := Some d'\<rparr>, [stmt])))"

definition executeCreateTable ::
  "'db storage \<Rightarrow> 'db slave \<Rightarrow> string \<Rightarrow> string option \<times> 'db slave \<times> string list" where
  "executeCreateTable S st stmt =
     (case db st of
        None \<Rightarrow> (Some ''local database connection not established'', st, [])
      | Some d \<Rightarrow>
          if \<not> HasPrefix (ToUpper stmt) ''CREATE TABLE''
          then (Some (''invalid CREATE TABLE statement: '' @ stmt), st, [])
          else
            (let cleanQuery = ReplaceAll stmt backtick [] in
             case execute S d cleanQuery of
               Inl err \<Rightarrow> (Some (''local query execution error: '' @ err), st, [cleanQuery])
             | Inr d' \<Rightarrow>
                 (verifyCreated S d' (localDbName st) stmt, st\<lparr>db := Some d'\<rparr>, [cleanQuery])))"

text \<open>\<^verbatim>\<open>case "create_table"\<close>.\<close>

definition onCreateTable :: "'db storage \<Rightarrow> 'db slave \<Rightarrow> string \<Rightarrow> 'db effect" where
  "onCreateTable S st content =
     (if \<not> HasPrefix (ToUpper content) ''CREATE TABLE''
      then \<lparr>after = st, sent = [], executed = [], control = Continue\<rparr>
      else
        (case executeCreateTable S st content of
           (err, st', stmts) \<Rightarrow>
             \<lparr>after = st', sent = [], executed = stmts, control = Continue\<rparr>))"

text \<open>\<^verbatim>\<open>case "sync_data"\<close>.\<close>

definition onSyncData :: "'db storage \<Rightarrow> 'db slave \<Rightarrow> string \<Rightarrow> 'db effect" where
  "onSyncData S st content =
     (case executeLocalQuery S st content of
        (None, st', stmts) \<Rightarrow>
          \<lparr>after = st', sent = [], executed = stmts, control = Continue\<rparr>
      | (Some err, st', stmts) \<Rightarrow>
          \<lparr>after = st',
           sent =
             (if Contains err ''Error 1146''
              then if HasPrefix (ToUpper content) ''INSERT INTO''
                   then let parts = Fields content in
                        if 3 \<le> length parts
                        then let tableName = TrimSpace (parts ! 2);
                                 tableName = Split tableName (CHR ''('') ! 0
                             in [line ''get_table_schema'' tableName]
                        else []
                   else []
              else []),
           executed = stmts, control = Continue\<rparr>)"

text \<open>\<^verbatim>\<open>case "replicate_query"\<close>.  Reading element 1 of the split table reference
  panics when there is no such element; the deferred function of \<^verbatim>\<open>listenToMaster\<close>
  then closes the link and clears \<^verbatim>\<open>connected\<close>.\<close>

definition onReplicateQuery :: "'db storage \<Rightarrow> 'db slave \<Rightarrow> string \<Rightarrow> 'db effect" where
  "onReplicateQuery S st content =
     (case executeLocalQuery S st content of
        (None, st', stmts) \<Rightarrow>
          \<lparr>after = st', sent = [], executed = stmts, control = Continue\<rparr>
      | (Some err, st', stmts) \<Rightarrow>
          if Contains err ''Error 1146'' \<and> Contains err ''doesn't exist''
          then let errParts = Split err quote in
               if 4 \<le> length errParts
               then let pieces = Split (errParts ! 3) (CHR ''.'') in
                    if length pieces \<le> 1
                    then \<lparr>after = st'\<lparr>connected := False\<rparr>, sent = [], executed = stmts,
                          control = Panic\<rparr>
                    else \<lparr>after = st', sent = [line ''get_table_schema'' (pieces ! 1)],
                          executed = stmts, control = Continue\<rparr>
               else \<lparr>after = st', sent = [], executed = stmts, control = Continue\<rparr>
          else \<lparr>after = st', sent = [], executed = stmts, control = Continue\<rparr>)"

text \<open>The decoding of a line and the cases of the switch that apply a statement of the
  master; for the other message types the result is \<open>None\<close>.\<close>

definition applyMessage :: "'db storage \<Rightarrow> 'db slave \<Rightarrow> string \<Rightarrow> 'db effect option" where
  "applyMessage S st message =
     (let parts = SplitN2 message (CHR '':'') in
      if length parts \<noteq> 2
      then Some \<lparr>after = st, sent = [], executed = [], control = Continue\<rparr>
      else let msgType = parts ! 0; content = parts ! 1 in
        if msgType = ''create_table'' then Some (onCreateTable S st content)
        else if msgType = ''sync_data'' then Some (onSyncData S st content)
        else if msgType = ''replicate_query'' then Some (onReplicateQuery S st content)
        else None)"

subsection \<open>The slave: connecting to the master\<close>

text \<open>The goroutine that \<^verbatim>\<open>main\<close> starts when the first \<^verbatim>\<open>connectToMaster\<close> fails:
  \<^verbatim>\<open>for !connected { time.Sleep(5 * time.Second); connectToMaster(masterAddr) }\<close>.
  \<open>BeforeMain\<close> is the state before the first dial and \<open>NotSpawned\<close> the state after a
  first dial that succeeded, in which the goroutine does not exist.\<close>

datatype supervisor = BeforeMain | NotSpawned | LoopHead | Sleeping | Woken | Exited

record 'db agent = "'db slave" +
  listening :: bool
  supervisor :: supervisor

text \<open>The steps of the agent without its operator: the first dial of \<^verbatim>\<open>main\<close> and its
  outcome, the test of the loop condition, the sleep and its length in seconds, the
  dial of the goroutine and its outcome, and the end of \<^verbatim>\<open>listenToMaster\<close> when the link
  fails.\<close>

datatype event = InitialDial bool | LoopTest | Sleep nat | Redial bool | LinkDown

definition connectToMaster :: "bool \<Rightarrow> 'db agent \<Rightarrow> 'db agent" where
  "connectToMaster dialed a = (if dialed then a\<lparr>connected := True, listening := True\<rparr> else a)"

fun step :: "'db agent \<Rightarrow> event \<Rightarrow> 'db agent option" where
  "step a (InitialDial dialed) =
     (if supervisor a = BeforeMain
      then Some ((connectToMaster dialed a)\<lparr>supervisor := (if dialed then NotSpawned else LoopHead)\<rparr>)
      else None)"
| "step a LoopTest =
     (if supervisor a = LoopHead
      then Some (a\<lparr>supervisor := (if \<not> connected a then Sleeping else Exited)\<rparr>)
      else None)"
| "step a (Sleep seconds) =
     (if supervisor a = Sleeping \<and> seconds = 5 then Some (a\<lparr>supervisor := Woken\<rparr>) else None)"
| "step a (Redial dialed) =
     (if supervisor a = Woken
      then Some ((connectToMaster dialed a)\<lparr>supervisor := LoopHead\<rparr>)
      else None)"
| "step a LinkDown =
     (if listening a then Some (a\<lparr>connected := False, listening := False\<rparr>) else None)"

fun run :: "'db agent \<Rightarrow> event list \<Rightarrow> 'db agent option" where
  "run a [] = Some a"
| "run a (e # es) = (case step a e of None \<Rightarrow> None | Some a' \<Rightarrow> run a' es)"

subsection \<open>A store with one table, for the examples\<close>

definition missingTable :: string where
  "missingTable = ''Error 1146 (42S02): Table 'shop.orders' doesn't exist''"

definition shopRows :: "val list list" where
  "shopRows = [[VOther ''1'', VBytes ''O'Brien''], [VOther ''2'', VNil]]"

definition shopDDL :: string where
  "shopDDL =
     ''CREATE TABLE `users` ('' @ [carriageReturn, newline] @ ''  `id` int,'' @ [newline] @
     ''  `name` text)''"

definition shop :: "unit storage" where
  "shop =
     \<lparr>execute = (\<lambda>d stmt. if Contains stmt ''orders'' then Inl missingTable else Inr d),
      query = (\<lambda>d stmt. Inl missingTable),
      showTables = (\<lambda>d. Inr [''users'']),
      showTablesLike =
        (\<lambda>d t. if t = ''users'' then Inr ''users'' else Inl ''sql: no rows in result set''),
      showCreateTable =
        (\<lambda>d t. if t = ''users'' then Inr (''users'', shopDDL) else Inl missingTable),
      countRows = (\<lambda>d t. if t = ''users'' then Inr 2 else Inl missingTable),
      selectPage =
        (\<lambda>d t limit offset.
           if t = ''users''
           then Inr \<lparr>columns = Inr [''id'', ''name''],
                     scans = map Inr (take (nat limit) (drop (nat offset) shopRows))\<rparr>
           else Inl missingTable),
      verifyCreated = (\<lambda>d name stmt. None)\<rparr>"

text \<open>The same store for a user who may not count the rows of its table.\<close>

definition deniedShop :: "unit storage" where
  "deniedShop =
     shop\<lparr>countRows := (\<lambda>d t. Inl ''Error 1142 (42000): SELECT command denied to user'')\<rparr>"

definition replica :: "unit slave" where
  "replica = \<lparr>db = Some (), localDbName = ''shop'', replicationInProgress = False,
              connected = True\<rparr>"

definition shopMaster :: "(unit, nat) master" where
  "shopMaster = \<lparr>mdb = (), dbName = ''shop'', tables = [''users''],
                 slaves = [(''10.0.0.1:5000'', 1), (''10.0.0.2:5000'', 2)]\<rparr>"

definition freshAgent :: "unit agent" where
  "freshAgent = \<lparr>db = None, localDbName = [], replicationInProgress = False,
                 connected = False, listening = False, supervisor = BeforeMain\<rparr>"

subsection \<open>Notions used in the statements\<close>

text \<open>The store holds the table \<open>t\<close> with the DDL \<open>ddl\<close>, the columns \<open>cols\<close> and the rows
  \<open>rs\<close>: it shows the DDL, counts the rows, and answers each page request with the rows
  of that page.\<close>

definition holds ::
  "'db storage \<Rightarrow> 'db \<Rightarrow> string \<Rightarrow> string \<Rightarrow> string list \<Rightarrow> val list list \<Rightarrow> bool" where
  "holds S d t ddl cols rs =
     (showCreateTable S d t = Inr (t, ddl) \<and>
      countRows S d t = Inr (int (length rs)) \<and>
      (\<forall>offset. 0 \<le> offset \<longrightarrow>
         selectPage S d t batchSize offset =
           Inr \<lparr>columns = Inr cols,
                scans = map Inr (take (nat batchSize) (drop (nat offset) rs))\<rparr>))"

section \<open>Properties\<close>

subsection \<open>The consistency checker\<close>

lemma checkMasterTables_eq:
  "checkMasterTables ms l (out, am) =
     (out @ map (\<lambda>(t, mc). (t, classifyMaster l t mc)) ms,
      am \<and> (\<forall>(t, mc) \<in> set ms. map_of l t = Some mc))"
  by (induction ms arbitrary: out am) (auto simp: classifyMaster_def split: option.splits)

lemma checkLocalTables_eq:
  "checkLocalTables ls m (out, am) =
     (out @ map (\<lambda>(t, c). (t, Extra)) (filter (\<lambda>(t, c). map_of m t = None) ls),
      am \<and> (\<forall>(t, c) \<in> set ls. map_of m t \<noteq> None))"
  by (induction ls arbitrary: out am) (auto split: option.splits)

lemma collectLocal_distinct:
  "distinct (map fst l) \<Longrightarrow> distinct (map fst (collectLocal S d names l))"
  by (induction names arbitrary: l) (auto split: sum.splits simp: distinct_update)

lemma verdicts_compareTables:
  "verdicts (compareTables m l) =
     map (\<lambda>(t, mc). (t, classifyMaster l t mc)) m @
     map (\<lambda>(t, c). (t, Extra)) (filter (\<lambda>(t, c). map_of m t = None) l)"
  by (simp add: compareTables_def checkMasterTables_eq checkLocalTables_eq)

lemma synchronized_compareTables:
  "synchronized (compareTables m l) =
     ((\<forall>(t, mc) \<in> set m. map_of l t = Some mc) \<and> (\<forall>(t, c) \<in> set l. map_of m t \<noteq> None))"
  by (simp add: compareTables_def checkMasterTables_eq checkLocalTables_eq)

lemma in_master_part:
  assumes "distinct (map fst m)"
  shows "(t, v) \<in> set (map (\<lambda>(t, mc). (t, classifyMaster l t mc)) m) \<longleftrightarrow>
         (\<exists>mc. map_of m t = Some mc \<and> v = classifyMaster l t mc)"
  using assms by (force simp: image_iff)

lemma in_local_part:
  assumes "distinct (map fst l)"
  shows "(t, v) \<in> set (map (\<lambda>(t, c). (t, Extra)) (filter (\<lambda>(t, c). map_of m t = None) l)) \<longleftrightarrow>
         (\<exists>lc. map_of l t = Some lc \<and> map_of m t = None \<and> v = Extra)"
  using assms by (force simp: image_iff)

lemma verdict_iff:
  assumes "distinct (map fst m)" "distinct (map fst l)"
  shows "(t, v) \<in> set (verdicts (compareTables m l)) \<longleftrightarrow>
     (case map_of m t of
        Some mc \<Rightarrow> (case map_of l t of
                      Some lc \<Rightarrow> v = (if lc = mc then Match else Mismatch)
                    | None \<Rightarrow> v = Missing)
      | None \<Rightarrow> (case map_of l t of Some lc \<Rightarrow> v = Extra | None \<Rightarrow> False))"
  unfolding verdicts_compareTables set_append Un_iff
    in_master_part [OF assms(1)] in_local_part [OF assms(2)]
  by (auto simp: classifyMaster_def split: option.splits)

lemma verdict_names:
  "map fst (verdicts (compareTables m l)) =
     map fst m @ filter (\<lambda>t. map_of m t = None) (map fst l)"
  by (simp add: verdicts_compareTables filter_map comp_def case_prod_unfold)

lemma verdict_names_distinct:
  assumes "distinct (map fst m)" "distinct (map fst l)"
  shows "distinct (map fst (verdicts (compareTables m l)))"
  using assms by (auto simp: verdict_names map_of_eq_None_iff)

lemma verdict_names_set:
  "set (map fst (verdicts (compareTables m l))) = fst ` set m \<union> fst ` set l"
  by (auto simp: verdict_names map_of_eq_None_iff)

lemma synchronized_iff:
  "synchronized (compareTables m l) \<longleftrightarrow>
     (\<forall>(t, v) \<in> set (verdicts (compareTables m l)). v = Match)"
proof
  assume s: "synchronized (compareTables m l)"
  show "\<forall>(t, v) \<in> set (verdicts (compareTables m l)). v = Match"
  proof (clarify)
    fix t v assume tv: "(t, v) \<in> set (verdicts (compareTables m l))"
    from s have a: "\<forall>(t, mc) \<in> set m. map_of l t = Some mc"
      and b: "\<forall>(t, c) \<in> set l. map_of m t \<noteq> None"
      by (simp_all add: synchronized_compareTables)
    from tv consider (M) mc where "(t, mc) \<in> set m" "v = classifyMaster l t mc"
      | (L) c where "(t, c) \<in> set l" "map_of m t = None"
      by (auto simp: verdicts_compareTables)
    then show "v = Match"
    proof cases
      case M
      with a have "map_of l t = Some mc" by blast
      with M show ?thesis by (simp add: classifyMaster_def)
    next
      case L
      with b show ?thesis by blast
    qed
  qed
next
  assume a: "\<forall>(t, v) \<in> set (verdicts (compareTables m l)). v = Match"
  have 1: "map_of l t = Some mc" if "(t, mc) \<in> set m" for t mc
  proof -
    have "(t, classifyMaster l t mc) \<in> set (verdicts (compareTables m l))"
      using that by (force simp: verdicts_compareTables)
    with a have "classifyMaster l t mc = Match" by blast
    then show ?thesis by (auto simp: classifyMaster_def split: option.splits if_splits)
  qed
  have 2: "map_of m t \<noteq> None" if "(t, c) \<in> set l" for t c
  proof
    assume n: "map_of m t = None"
    then have "(t, Extra) \<in> set (verdicts (compareTables m l))"
      using that by (force simp: verdicts_compareTables)
    with a show False by blast
  qed
  show "synchronized (compareTables m l)"
    using 1 2 by (auto simp: synchronized_compareTables)
qed

lemma compareReplication_state: "snd (compareReplication S st m) = st"
  by (simp add: compareReplication_def split: option.splits sum.splits)

lemma compareTables_example:
  "compareTables [(''a'', 10), (''b'', 5)] [(''a'', 10), (''c'', 3)] =
     \<lparr>verdicts = [(''a'', Match), (''b'', Missing), (''c'', Extra)], synchronized = False\<rparr>"
  by (simp add: compareTables_def)

text \<open>
  Claim C3.  Comparing a master report with the local row counts (two maps, so with
  distinct keys) gives exactly one verdict to every table named on either side:
  Match when both sides have it with equal counts, Mismatch when both have it with
  different counts, Missing when only the master has it, Extra when only the slave has
  it.  The overall status is Synchronized exactly when every verdict is Match.  The
  slave's state, its database included, is the same after \<^verbatim>\<open>compareReplication\<close> as
  before; with a database at hand the comparison is made against the map collected from
  it, whose keys are distinct.  Master counts a:10, b:5 against local counts a:10, c:3
  give a Match, b Missing, c Extra, and not Synchronized.
\<close>

theorem compareReplication_classifies:
  assumes "distinct (map fst masterTables)" and "distinct (map fst localTables)"
  shows "set (map fst (verdicts (compareTables masterTables localTables))) =
           fst ` set masterTables \<union> fst ` set localTables
       \<and> distinct (map fst (verdicts (compareTables masterTables localTables)))
       \<and> (\<forall>t v. (t, v) \<in> set (verdicts (compareTables masterTables localTables)) \<longleftrightarrow>
            (case map_of masterTables t of
               Some mc \<Rightarrow> (case map_of localTables t of
                             Some lc \<Rightarrow> v = (if lc = mc then Match else Mismatch)
                           | None \<Rightarrow> v = Missing)
             | None \<Rightarrow> (case map_of localTables t of Some lc \<Rightarrow> v = Extra | None \<Rightarrow> False)))
       \<and> (synchronized (compareTables masterTables localTables) \<longleftrightarrow>
            (\<forall>(t, v) \<in> set (verdicts (compareTables masterTables localTables)). v = Match))
       \<and> snd (compareReplication S st masterTables) = st
       \<and> (\<forall>d names. db st = Some d \<and> showTables S d = Inr names \<longrightarrow>
            fst (compareReplication S st masterTables) =
              Inr (compareTables masterTables (collectLocal S d names []))
            \<and> distinct (map fst (collectLocal S d names [])))
       \<and> compareTables [(''a'', 10), (''b'', 5)] [(''a'', 10), (''c'', 3)] =
           \<lparr>verdicts = [(''a'', Match), (''b'', Missing), (''c'', Extra)],
            synchronized = False\<rparr>"
proof (intro conjI)
  show "set (map fst (verdicts (compareTables masterTables localTables))) =
           fst ` set masterTables \<union> fst ` set localTables"
    by (rule verdict_names_set)
  show "distinct (map fst (verdicts (compareTables masterTables localTables)))"
    by (rule verdict_names_distinct [OF assms])
  show "\<forall>t v. (t, v) \<in> set (verdicts (compareTables masterTables localTables)) \<longleftrightarrow>
            (case map_of masterTables t of
               Some mc \<Rightarrow> (case map_of localTables t of
                             Some lc \<Rightarrow> v = (if lc = mc then Match else Mismatch)
                           | None \<Rightarrow> v = Missing)
             | None \<Rightarrow> (case map_of localTables t of Some lc \<Rightarrow> v = Extra | None \<Rightarrow> False))"
    using verdict_iff [OF assms] by blast
  show "synchronized (compareTables masterTables localTables) \<longleftrightarrow>
            (\<forall>(t, v) \<in> set (verdicts (compareTables masterTables localTables)). v = Match)"
    by (rule synchronized_iff)
  show "snd (compareReplication S st masterTables) = st"
    by (rule compareReplication_state)
  show "\<forall>d names. db st = Some d \<and> showTables S d = Inr names \<longrightarrow>
            fst (compareReplication S st masterTables) =
              Inr (compareTables masterTables (collectLocal S d names []))
            \<and> distinct (map fst (collectLocal S d names []))"
    by (simp add: compareReplication_def collectLocal_distinct)
  show "compareTables [(''a'', 10), (''b'', 5)] [(''a'', 10), (''c'', 3)] =
           \<lparr>verdicts = [(''a'', Match), (''b'', Missing), (''c'', Extra)],
            synchronized = False\<rparr>"
    by (rule compareTables_example)
qed

theorem compareReplication_classifies_witness:
  "distinct (map fst [(''a'', 10::int), (''b'', 5)]) \<and>
   distinct (map fst [(''a'', 10::int), (''c'', 3)]) \<and>
   distinct (map fst (verdicts (compareTables [(''a'', 10), (''b'', 5)] [(''a'', 10), (''c'', 3)]))) \<and>
   compareTables [(''a'', 10), (''b'', 5)] [(''a'', 10), (''c'', 3)] =
           \<lparr>verdicts = [(''a'', Match), (''b'', Missing), (''c'', Extra)],
            synchronized = False\<rparr>"
proof -
  have m: "distinct (map fst [(''a'', 10::int), (''b'', 5)])" by simp
  have l: "distinct (map fst [(''a'', 10::int), (''c'', 3)])" by simp
  note inst = compareReplication_classifies [OF m l]
  have 1: "distinct (map fst (verdicts (compareTables [(''a'', 10), (''b'', 5)] [(''a'', 10), (''c'', 3)])))"
    by (rule inst [THEN conjunct2, THEN conjunct1])
  have 2: "compareTables [(''a'', 10), (''b'', 5)] [(''a'', 10), (''c'', 3)] =
           \<lparr>verdicts = [(''a'', Match), (''b'', Missing), (''c'', Extra)],
            synchronized = False\<rparr>"
    by (rule inst [THEN conjunct2, THEN conjunct2, THEN conjunct2, THEN conjunct2,
                   THEN conjunct2, THEN conjunct2])
  from m l 1 2 show ?thesis by (intro conjI)
qed

subsection \<open>The bootstrap of a new slave\<close>

lemma sendRows_Inr: "sendRows t cols (map Inr rs) = map (\<lambda>r. line ''sync_data'' (insertStatement t cols r)) rs"
  by (induction rs) auto

lemma sendBatch_holds:
  assumes "holds S d t ddl cols rs" "0 \<le> offset"
  shows "sendBatch S d t offset =
        map (\<lambda>r. line ''sync_data'' (insertStatement t cols r)) (take 100 (drop (nat offset) rs))"
  using assms by (simp add: sendBatch_def sendRows_Inr batchSize_def holds_def)

lemma sendBatches_holds:
  assumes h: "holds S d t ddl cols rs"
  shows "0 \<le> offset \<Longrightarrow> sendBatches S d t (int (length rs)) offset =
           map (\<lambda>r. line ''sync_data'' (insertStatement t cols r)) (drop (nat offset) rs)"
proof (induction "nat (int (length rs) - offset)" arbitrary: offset rule: less_induct)
  case less
  show ?case
  proof (cases "offset < int (length rs)")
    case True
    have n: "nat (offset + batchSize) = nat offset + 100"
      using less.prems by (simp add: batchSize_def nat_add_distrib)
    have ih: "sendBatches S d t (int (length rs)) (offset + batchSize) =
        map (\<lambda>r. line ''sync_data'' (insertStatement t cols r)) (drop (nat offset + 100) rs)"
      using less.hyps [of "offset + batchSize"] True less.prems n by (simp add: batchSize_def)
    have "take 100 (drop (nat offset) rs) @ drop (nat offset + 100) rs = drop (nat offset) rs"
      by (metis add.commute append_take_drop_id drop_drop)
    then show ?thesis
      using True sendBatch_holds [OF h less.prems] ih
      by (subst sendBatches.simps) (simp flip: map_append)
  next
    case False
    then show ?thesis by (subst sendBatches.simps) simp
  qed
qed

lemma sendTable_holds:
  assumes h: "holds S d t ddl cols rs"
  shows "sendTable S d t =
     line ''create_table'' (ReplaceAll ddl newline '' '') #
     map (\<lambda>r. line ''sync_data'' (insertStatement t cols r)) rs"
proof -
  have a: "showCreateTable S d t = Inr (t, ddl)" "countRows S d t = Inr (int (length rs))"
    using h by (simp_all add: holds_def)
  show ?thesis
  proof (cases "rs = []")
    case True
    then show ?thesis using a by (simp add: sendTable_def)
  next
    case False
    then show ?thesis using a sendBatches_holds [OF h, of 0] by (simp add: sendTable_def)
  qed
qed

lemma sendTableData_holds:
  assumes h: "holds S d t ddl cols rs"
  shows "sendTableData S d t = map (\<lambda>r. line ''sync_data'' (insertStatement t cols r)) rs"
proof -
  have a: "countRows S d t = Inr (int (length rs))"
    using h by (simp_all add: holds_def)
  show ?thesis
  proof (cases "rs = []")
    case True
    then show ?thesis using a by (simp add: sendTableData_def)
  next
    case False
    then show ?thesis using a sendBatches_holds [OF h, of 0] by (simp add: sendTableData_def)
  qed
qed

lemma sendTables_concat: "sendTables S d ts = concat (map (sendTable S d) ts)"
  by (induction ts) auto

lemma addColumnNames_Suc:
  "addColumnNames cols (Suc i) q = q @ concat (map (\<lambda>c. '', '' @ c) cols)"
  by (induction cols arbitrary: i q) auto

lemma Join_Cons: "Join (c # cs) sep = c @ concat (map (\<lambda>x. sep @ x) cs)"
  by (induction cs arbitrary: c) auto

lemma addColumnNames_Join: "addColumnNames cols 0 q = q @ Join cols '', ''"
proof (cases cols)
  case Nil
  then show ?thesis by simp
next
  case (Cons c cs)
  have "addColumnNames (c # cs) 0 q = addColumnNames cs (Suc 0) (q @ c)" by simp
  then show ?thesis by (simp only: Cons addColumnNames_Suc Join_Cons append_assoc)
qed

lemma insertStatement_Join:
  "insertStatement t cols vs =
     ''INSERT INTO '' @ t @ '' ('' @ Join cols '', '' @ '') VALUES ('' @
     Join (map valueString vs) '', '' @ '')''"
  by (simp add: insertStatement_def addColumnNames_Join)

lemma shop_holds: "holds shop () ''users'' shopDDL [''id'', ''name''] shopRows"
  by (simp add: holds_def shop_def shopRows_def)



lemma pages_arith1: "0 \<le> (n::int) \<Longrightarrow> n \<le> 100 * ((n + 99) div 100)"
  by linarith

lemma pages_arith2: "int j < (n + 99) div 100 \<Longrightarrow> 100 * int j < n"
  by linarith

lemma pages:
  assumes "0 \<le> n"
  shows "j \<le> nat ((n + 99) div 100) \<Longrightarrow> sendBatches S d t n (100 * int j) =
     concat (map (\<lambda>k. sendBatch S d t (100 * int k)) [j ..< nat ((n + 99) div 100)])"
proof (induction "nat ((n + 99) div 100) - j" arbitrary: j)
  case 0
  then have "int j = (n + 99) div 100" using assms by simp
  with pages_arith1 [OF assms] have "\<not> 100 * int j < n" by simp
  moreover have "[j ..< nat ((n + 99) div 100)] = []" using 0 by simp
  ultimately show ?case by (subst sendBatches.simps) (simp only: if_False map_is_Nil_conv concat.simps list.map)
next
  case (Suc x)
  then have lt: "j < nat ((n + 99) div 100)" by simp
  then have "int j < (n + 99) div 100" by simp
  then have a: "100 * int j < n" by (rule pages_arith2)
  have b: "sendBatches S d t n (100 * int (Suc j)) =
     concat (map (\<lambda>k. sendBatch S d t (100 * int k)) [Suc j ..< nat ((n + 99) div 100)])"
    using Suc.hyps(1) [of "Suc j"] Suc.hyps(2) lt by simp
  have c: "100 * int j + batchSize = 100 * int (Suc j)" by (simp add: batchSize_def)
  have d: "[j ..< nat ((n + 99) div 100)] = j # [Suc j ..< nat ((n + 99) div 100)]"
    using lt by (rule upt_conv_Cons)
  show ?case
    by (subst sendBatches.simps) (simp only: a if_True c b d list.map concat.simps)
qed


lemma sendTable_unreadable: "showCreateTable S d t = Inl err \<Longrightarrow> sendTable S d t = []"
  by (simp add: sendTable_def)

lemma sendTable_pages:
  assumes "showCreateTable S d t = Inr (n, ddl)" "countRows S d n = Inr rowCount" "0 < rowCount"
  shows "sendTable S d t = line ''create_table'' (ReplaceAll ddl newline '' '') #
           concat (map (\<lambda>k. sendBatch S d n (100 * int k)) [0 ..< nat ((rowCount + 99) div 100)])"
  using assms pages [of rowCount 0 S d n] by (simp add: sendTable_def)

lemma sendTableData_pages:
  assumes "countRows S d n = Inr rowCount" "0 < rowCount"
  shows "sendTableData S d n =
           concat (map (\<lambda>k. sendBatch S d n (100 * int k)) [0 ..< nat ((rowCount + 99) div 100)])"
  using assms pages [of rowCount 0 S d n] by (simp add: sendTableData_def)

lemma handleSlaveConnection_out:
  "snd (handleSlaveConnection S st conn addr input) =
     map (Pair conn) (sendSchemaToSlave S (mdb st) (dbName st) (tables st)) @
     snd (serve S (st\<lparr>slaves := AList.update addr conn (slaves st)\<rparr>) conn input)"
  by (simp add: handleSlaveConnection_def Let_def split: prod.splits)

text \<open>
  Claim C1, as stated, fails: a table of the master's list whose \<^verbatim>\<open>SHOW CREATE TABLE\<close>
  fails gets no \<^verbatim>\<open>create_table\<close> message.  With the table list \<^verbatim>\<open>orders\<close> and a store
  that does not have that table, the bootstrap consists of the three framing messages.
\<close>

theorem bootstrap_skips_unreadable_table: "sendSchemaToSlave shop () ''shop'' [''orders''] =
     [line ''init_replication'' ''shop'', line ''create_db'' ''shop'',
      line ''replication_complete'' ''done'']"
  by (simp add: sendSchemaToSlave_def sendTable_def shop_def)

lemma SplitN2_colon: "CHR '':'' \<notin> set op \<Longrightarrow> SplitN2 (op @ '':'' @ rest) (CHR '':'') = [op, rest]"
proof -
  assume a: "CHR '':'' \<notin> set op"
  have "takeWhile (\<lambda>c. c \<noteq> CHR '':'') (op @ CHR '':'' # rest) = op"
    using a by (induction op) auto
  moreover have "dropWhile (\<lambda>c. c \<noteq> CHR '':'') (op @ CHR '':'' # rest) = CHR '':'' # rest"
    using a by (induction op) auto
  ultimately show ?thesis by (simp add: SplitN2_def)
qed

lemma sendTableSchema_unknown:
  assumes "\<not> TableExists S d name \<or> (\<exists>err. showCreateTable S d name = Inl err)"
  shows "\<exists>detail. sendTableSchema S d name = [line ''error'' detail]"
  using assms by (auto simp: sendTableSchema_def)

lemma error_line_prefix:
  "\<not> HasPrefix (line ''error'' detail) ''create_table:'' \<and>
   \<not> HasPrefix (line ''error'' detail) ''sync_data:''"
  by (simp add: HasPrefix_def line_def)

lemma sendTableSchema_known:
  assumes "TableExists S d name" "showCreateTable S d name = Inr (n, ddl)"
  shows "sendTableSchema S d name =
           line ''create_table'' (ReplaceAll ddl newline '' '') # sendTableData S d n"
    and "sendTableSchema S d name = sendTable S d name"
  using assms by (simp_all add: sendTableSchema_def sendTable_def sendTableData_def)

lemma handleRequest_schema:
  "handleRequest S st conn (''get_table_schema:'' @ name) =
     (st, map (Pair conn) (sendTableSchema S (mdb st) name))"
  using SplitN2_colon [of "''get_table_schema''" name]
  by (simp add: handleRequest_def Let_def)

lemma bootstrap_keeps_cr: "sendSchemaToSlave shop () ''shop'' [''users''] ! 2 =
     line ''create_table''
       (''CREATE TABLE `users` ('' @ [carriageReturn] @ ''   `id` int,   `name` text)'')"
  by (simp add: sendSchemaToSlave_def sendTable_def shop_def shopDDL_def ReplaceAll_def
      newline_def carriageReturn_def)

lemma schema_reply_keeps_cr: "hd (sendTableSchema shop () ''users'') =
     line ''create_table''
       (''CREATE TABLE `users` ('' @ [carriageReturn] @ ''   `id` int,   `name` text)'')"
  by (simp add: sendTableSchema_def TableExists_def shop_def shopDDL_def ReplaceAll_def
      newline_def carriageReturn_def)

lemma CreateTable_replaces_cr: "CreateTable shop shopMaster ''users'' [(''name'', 3)] =
     Inr (shopMaster,
          [(1, line ''notification'' ''Table created: users''),
           (2, line ''notification'' ''Table created: users''),
           (1, line ''create_table'' ''CREATE TABLE `users` (    `id` int,   `name` text)''),
           (2, line ''create_table'' ''CREATE TABLE `users` (    `id` int,   `name` text)'')])"
  by (simp add: CreateTable_def shop_def shopMaster_def shopDDL_def ReplaceAll_def
      newline_def carriageReturn_def data_type_def HasPrefix_def Let_def)


lemma valueString_cases:
  "valueString VNil = ''NULL'' \<and>
   (\<forall>b. valueString (VBytes b) = [quote] @ ReplaceAll b quote [quote, quote] @ [quote]) \<and>
   (\<forall>str. valueString (VString str) = [quote] @ ReplaceAll str quote [quote, quote] @ [quote]) \<and>
   (\<forall>shown. valueString (VOther shown) = shown)"
  by (simp add: valueString_def)

lemma sendRows_scanned:
  "sendRows t cols xs =
     map (\<lambda>r. line ''sync_data'' (insertStatement t cols r)) [r. Inr r \<leftarrow> xs]"
proof (induction xs)
  case Nil
  show ?case by simp
next
  case (Cons x xs)
  then show ?case by (cases x) simp_all
qed

lemma sendBatch_page:
  "sendBatch S d n offset =
     (case selectPage S d n 100 offset of
        Inl err \<Rightarrow> []
      | Inr p \<Rightarrow>
          (case columns p of
             Inl err \<Rightarrow> []
           | Inr cols \<Rightarrow>
               map (\<lambda>r. line ''sync_data'' (insertStatement n cols r)) [r. Inr r \<leftarrow> scans p]))"
  by (simp add: sendBatch_def batchSize_def sendRows_scanned split: sum.splits)

lemma no_pages_aux: "rowCount \<le> 0 \<Longrightarrow> (rowCount + 99) div 100 \<le> (0::int)"
  by linarith

lemma no_pages: "rowCount \<le> 0 \<Longrightarrow> nat ((rowCount + 99) div 100) = 0"
  by (rule nat_le_0, erule no_pages_aux)

lemma sendBatches_none:
  assumes "rowCount \<le> 0"
  shows "sendBatches S d n rowCount 0 = []"
proof -
  from assms have "\<not> 0 < rowCount" by simp
  then show ?thesis by (subst sendBatches.simps) (simp only: if_False)
qed

lemma sendTable_readable:
  assumes "showCreateTable S d t = Inr (n, ddl)"
  shows "sendTable S d t =
     line ''create_table'' (ReplaceAll ddl newline '' '') #
     (case countRows S d n of
        Inl err \<Rightarrow> []
      | Inr rowCount \<Rightarrow>
          concat (map (\<lambda>k. sendBatch S d n (100 * int k))
            [0 ..< nat ((rowCount + 99) div 100)]))"
proof (cases "countRows S d n")
  case (Inl err)
  with assms show ?thesis by (simp add: sendTable_def)
next
  case (Inr rowCount)
  show ?thesis
  proof (cases "0 < rowCount")
    case True
    from sendTable_pages [OF assms Inr True] show ?thesis by (simp add: Inr)
  next
    case False
    then have z: "rowCount \<le> 0" by simp
    have "sendTable S d t = [line ''create_table'' (ReplaceAll ddl newline '' '')]"
      by (simp add: sendTable_def assms Inr sendBatches_none [OF z])
    then show ?thesis by (simp add: Inr no_pages [OF z])
  qed
qed

text \<open>
  Claim C1, amended.  To a newly accepted connection the master writes
  \<^verbatim>\<open>init_replication:<dbName>\<close>, then \<^verbatim>\<open>create_db:<dbName>\<close>, then the block of every table
  of its list in order, then \<^verbatim>\<open>replication_complete:done\<close>, and only then the replies of
  the request loop.  The block of a table whose DDL cannot be read is empty.  The block
  of a table whose DDL is read begins with \<^verbatim>\<open>create_table:<ddl>\<close> (line feeds replaced by
  spaces); nothing follows it when the rows cannot be counted or there are none, and
  otherwise what the pages of 100 rows at the offsets 0, 100, 200, ... yield.  A page
  that cannot be read, or whose columns cannot be read, yields nothing; any other page
  yields one \<^verbatim>\<open>sync_data\<close> message for each of its rows that is scanned, in order,
  carrying \<^verbatim>\<open>INSERT INTO t (cols) VALUES (...)\<close> with \<^verbatim>\<open>NULL\<close> for nil, byte and string
  values in single quotes with every quote doubled, and any other value in its default
  text.  So a table that the store holds with rows \<open>rs\<close> is sent as \<^verbatim>\<open>create_table\<close>
  followed by one \<^verbatim>\<open>sync_data\<close> message for each row of \<open>rs\<close>, in order.
\<close>

theorem sendSchemaToSlave_sequence:
  "sendSchemaToSlave S d dbn tbls =
     line ''init_replication'' dbn # line ''create_db'' dbn #
     concat (map (sendTable S d) tbls) @ [line ''replication_complete'' ''done'']
   \<and> (\<forall>t. (\<exists>err. showCreateTable S d t = Inl err) \<longrightarrow> sendTable S d t = [])
   \<and> (\<forall>t n ddl.
         showCreateTable S d t = Inr (n, ddl) \<longrightarrow>
         sendTable S d t =
           line ''create_table'' (ReplaceAll ddl newline '' '') #
           (case countRows S d n of
              Inl err \<Rightarrow> []
            | Inr rowCount \<Rightarrow>
                concat (map (\<lambda>k. sendBatch S d n (100 * int k))
                  [0 ..< nat ((rowCount + 99) div 100)])))
   \<and> (\<forall>n offset.
         sendBatch S d n offset =
           (case selectPage S d n 100 offset of
              Inl err \<Rightarrow> []
            | Inr p \<Rightarrow>
                (case columns p of
                   Inl err \<Rightarrow> []
                 | Inr cols \<Rightarrow>
                     map (\<lambda>r. line ''sync_data'' (insertStatement n cols r))
                       [r. Inr r \<leftarrow> scans p])))
   \<and> (\<forall>t ddl cols rs.
         holds S d t ddl cols rs \<longrightarrow>
         sendTable S d t =
           line ''create_table'' (ReplaceAll ddl newline '' '') #
           map (\<lambda>r. line ''sync_data'' (insertStatement t cols r)) rs)
   \<and> (\<forall>t cols vs.
         insertStatement t cols vs =
           ''INSERT INTO '' @ t @ '' ('' @ Join cols '', '' @ '') VALUES ('' @
           Join (map valueString vs) '', '' @ '')'')
   \<and> valueString VNil = ''NULL''
   \<and> (\<forall>b. valueString (VBytes b) = [quote] @ ReplaceAll b quote [quote, quote] @ [quote])
   \<and> (\<forall>str. valueString (VString str) = [quote] @ ReplaceAll str quote [quote, quote] @ [quote])
   \<and> (\<forall>shown. valueString (VOther shown) = shown)
   \<and> (\<forall>(st :: ('db, 'c) master) conn addr input.
         mdb st = d \<and> dbName st = dbn \<and> tables st = tbls \<longrightarrow>
         snd (handleSlaveConnection S st conn addr input) =
           map (Pair conn) (sendSchemaToSlave S d dbn tbls) @
           snd (serve S (st\<lparr>slaves := AList.update addr conn (slaves st)\<rparr>) conn input))"
proof (intro conjI)
  show "sendSchemaToSlave S d dbn tbls =
     line ''init_replication'' dbn # line ''create_db'' dbn #
     concat (map (sendTable S d) tbls) @ [line ''replication_complete'' ''done'']"
    by (simp add: sendSchemaToSlave_def sendTables_concat)
  show "\<forall>t. (\<exists>err. showCreateTable S d t = Inl err) \<longrightarrow> sendTable S d t = []"
    by (auto simp: sendTable_unreadable)
  show "\<forall>t n ddl.
         showCreateTable S d t = Inr (n, ddl) \<longrightarrow>
         sendTable S d t =
           line ''create_table'' (ReplaceAll ddl newline '' '') #
           (case countRows S d n of
              Inl err \<Rightarrow> []
            | Inr rowCount \<Rightarrow>
                concat (map (\<lambda>k. sendBatch S d n (100 * int k))
                  [0 ..< nat ((rowCount + 99) div 100)]))"
    by (intro allI impI, erule sendTable_readable)
  show "\<forall>n offset.
         sendBatch S d n offset =
           (case selectPage S d n 100 offset of
              Inl err \<Rightarrow> []
            | Inr p \<Rightarrow>
                (case columns p of
                   Inl err \<Rightarrow> []
                 | Inr cols \<Rightarrow>
                     map (\<lambda>r. line ''sync_data'' (insertStatement n cols r))
                       [r. Inr r \<leftarrow> scans p]))"
    by (intro allI, rule sendBatch_page)
  show "\<forall>t ddl cols rs.
         holds S d t ddl cols rs \<longrightarrow>
         sendTable S d t =
           line ''create_table'' (ReplaceAll ddl newline '' '') #
           map (\<lambda>r. line ''sync_data'' (insertStatement t cols r)) rs"
    by (intro allI impI, erule sendTable_holds)
  show "\<forall>t cols vs.
         insertStatement t cols vs =
           ''INSERT INTO '' @ t @ '' ('' @ Join cols '', '' @ '') VALUES ('' @
           Join (map valueString vs) '', '' @ '')''"
    by (intro allI, rule insertStatement_Join)
  show "valueString VNil = ''NULL''"
    and "\<forall>b. valueString (VBytes b) = [quote] @ ReplaceAll b quote [quote, quote] @ [quote]"
    and "\<forall>str. valueString (VString str) = [quote] @ ReplaceAll str quote [quote, quote] @ [quote]"
    and "\<forall>shown. valueString (VOther shown) = shown"
    using valueString_cases by blast+
  show "\<forall>(st :: ('db, 'c) master) conn addr input.
         mdb st = d \<and> dbName st = dbn \<and> tables st = tbls \<longrightarrow>
         snd (handleSlaveConnection S st conn addr input) =
           map (Pair conn) (sendSchemaToSlave S d dbn tbls) @
           snd (serve S (st\<lparr>slaves := AList.update addr conn (slaves st)\<rparr>) conn input)"
    by (intro allI impI, elim conjE, simp add: handleSlaveConnection_out)
qed

theorem sendSchemaToSlave_sequence_witness:
  "holds shop () ''users'' shopDDL [''id'', ''name''] shopRows
   \<and> sendTable shop () ''users'' =
       [line ''create_table'' (ReplaceAll shopDDL newline '' ''),
        line ''sync_data'' (''INSERT INTO users (id, name) VALUES (1, 'O'' @ [quote, quote] @ ''Brien')''),
        line ''sync_data'' ''INSERT INTO users (id, name) VALUES (2, NULL)'']
   \<and> showCreateTable shop () ''orders'' = Inl missingTable
   \<and> sendTable shop () ''orders'' = []
   \<and> showCreateTable deniedShop () ''users'' = Inr (''users'', shopDDL)
   \<and> sendTable deniedShop () ''users'' = [line ''create_table'' (ReplaceAll shopDDL newline '' '')]"
proof -
  note inst = sendSchemaToSlave_sequence [where S = shop and d = "()" and dbn = "''shop''"
      and tbls = "[''orders'', ''users'']"]
  note denied = sendSchemaToSlave_sequence [where S = deniedShop and d = "()" and dbn = "''shop''"
      and tbls = "[''users'']"]
  have h: "holds shop () ''users'' shopDDL [''id'', ''name''] shopRows"
    by (rule shop_holds)
  have o: "showCreateTable shop () ''orders'' = Inl missingTable"
    by (simp add: shop_def)
  have "\<forall>t ddl cols rs.
         holds shop () t ddl cols rs \<longrightarrow>
         sendTable shop () t =
           line ''create_table'' (ReplaceAll ddl newline '' '') #
           map (\<lambda>r. line ''sync_data'' (insertStatement t cols r)) rs"
    by (rule inst [THEN conjunct2, THEN conjunct2, THEN conjunct2, THEN conjunct2, THEN conjunct1])
  then have "holds shop () ''users'' shopDDL [''id'', ''name''] shopRows \<longrightarrow>
         sendTable shop () ''users'' =
           line ''create_table'' (ReplaceAll shopDDL newline '' '') #
           map (\<lambda>r. line ''sync_data'' (insertStatement ''users'' [''id'', ''name''] r)) shopRows"
    by (elim allE)
  with h have f: "sendTable shop () ''users'' =
           line ''create_table'' (ReplaceAll shopDDL newline '' '') #
           map (\<lambda>r. line ''sync_data'' (insertStatement ''users'' [''id'', ''name''] r)) shopRows"
    by (elim impE)
  have i: "\<forall>t cols vs.
         insertStatement t cols vs =
           ''INSERT INTO '' @ t @ '' ('' @ Join cols '', '' @ '') VALUES ('' @
           Join (map valueString vs) '', '' @ '')''"
    by (rule inst [THEN conjunct2, THEN conjunct2, THEN conjunct2, THEN conjunct2,
                   THEN conjunct2, THEN conjunct1])
  from f i have u: "sendTable shop () ''users'' =
       [line ''create_table'' (ReplaceAll shopDDL newline '' ''),
        line ''sync_data'' (''INSERT INTO users (id, name) VALUES (1, 'O'' @ [quote, quote] @ ''Brien')''),
        line ''sync_data'' ''INSERT INTO users (id, name) VALUES (2, NULL)'']"
    by (simp add: shopRows_def valueString_def quote_def ReplaceAll_def)
  have "\<forall>t. (\<exists>err. showCreateTable shop () t = Inl err) \<longrightarrow> sendTable shop () t = []"
    by (rule inst [THEN conjunct2, THEN conjunct1])
  then have "(\<exists>err. showCreateTable shop () ''orders'' = Inl err) \<longrightarrow> sendTable shop () ''orders'' = []"
    by (elim allE)
  moreover from o have "\<exists>err. showCreateTable shop () ''orders'' = Inl err" by (rule exI)
  ultimately have e: "sendTable shop () ''orders'' = []" by (elim impE)
  have sc: "showCreateTable deniedShop () ''users'' = Inr (''users'', shopDDL)"
    by (simp add: deniedShop_def shop_def)
  have "\<forall>t n ddl.
         showCreateTable deniedShop () t = Inr (n, ddl) \<longrightarrow>
         sendTable deniedShop () t =
           line ''create_table'' (ReplaceAll ddl newline '' '') #
           (case countRows deniedShop () n of
              Inl err \<Rightarrow> []
            | Inr rowCount \<Rightarrow>
                concat (map (\<lambda>k. sendBatch deniedShop () n (100 * int k))
                  [0 ..< nat ((rowCount + 99) div 100)]))"
    by (rule denied [THEN conjunct2, THEN conjunct2, THEN conjunct1])
  then have "showCreateTable deniedShop () ''users'' = Inr (''users'', shopDDL) \<longrightarrow>
         sendTable deniedShop () ''users'' =
           line ''create_table'' (ReplaceAll shopDDL newline '' '') #
           (case countRows deniedShop () ''users'' of
              Inl err \<Rightarrow> []
            | Inr rowCount \<Rightarrow>
                concat (map (\<lambda>k. sendBatch deniedShop () ''users'' (100 * int k))
                  [0 ..< nat ((rowCount + 99) div 100)]))"
    by (elim allE)
  with sc have "sendTable deniedShop () ''users'' =
           line ''create_table'' (ReplaceAll shopDDL newline '' '') #
           (case countRows deniedShop () ''users'' of
              Inl err \<Rightarrow> []
            | Inr rowCount \<Rightarrow>
                concat (map (\<lambda>k. sendBatch deniedShop () ''users'' (100 * int k))
                  [0 ..< nat ((rowCount + 99) div 100)]))"
    by (elim impE)
  then have dn: "sendTable deniedShop () ''users'' =
      [line ''create_table'' (ReplaceAll shopDDL newline '' '')]"
    by (simp add: deniedShop_def)
  from h u o e sc dn show ?thesis by (intro conjI)
qed

subsection \<open>Requests for the schema of one table\<close>

text \<open>
  Claim C5.  The master knows the table named in \<^verbatim>\<open>get_table_schema:<name>\<close> when
  \<^verbatim>\<open>TableExists\<close> finds it and its DDL can be read.  For a name it does not know the
  reply is a single \<^verbatim>\<open>error:...\<close> line, so no \<^verbatim>\<open>create_table\<close> and no \<^verbatim>\<open>sync_data\<close>
  message.  For a table it knows the reply is \<^verbatim>\<open>create_table:<ddl>\<close> followed by what
  \<^verbatim>\<open>sendTableData\<close> sends, which is the block that the bootstrap sends for that table:
  the pages of 100 rows at the offsets 0, 100, 200, ..., and for a table that the store
  holds one \<^verbatim>\<open>sync_data\<close> \<^verbatim>\<open>INSERT\<close> statement for each of its rows.
\<close>

theorem sendTableSchema_reply:
  "handleRequest S st conn (''get_table_schema:'' @ name) =
     (st, map (Pair conn) (sendTableSchema S (mdb st) name))
   \<and> (\<not> TableExists S d name \<or> (\<exists>err. showCreateTable S d name = Inl err) \<longrightarrow>
        (\<exists>detail. sendTableSchema S d name = [line ''error'' detail]) \<and>
        (\<forall>m \<in> set (sendTableSchema S d name).
           \<not> HasPrefix m ''create_table:'' \<and> \<not> HasPrefix m ''sync_data:''))
   \<and> (\<forall>n ddl. TableExists S d name \<and> showCreateTable S d name = Inr (n, ddl) \<longrightarrow>
        sendTableSchema S d name =
          line ''create_table'' (ReplaceAll ddl newline '' '') # sendTableData S d n \<and>
        sendTableSchema S d name = sendTable S d name)
   \<and> (\<forall>n rowCount. countRows S d n = Inr rowCount \<and> 0 < rowCount \<longrightarrow>
        sendTableData S d n =
          concat (map (\<lambda>k. sendBatch S d n (100 * int k)) [0 ..< nat ((rowCount + 99) div 100)]))
   \<and> (\<forall>ddl cols rs. TableExists S d name \<and> holds S d name ddl cols rs \<longrightarrow>
        sendTableSchema S d name =
          line ''create_table'' (ReplaceAll ddl newline '' '') #
          map (\<lambda>r. line ''sync_data'' (insertStatement name cols r)) rs)"
proof (intro conjI)
  show "handleRequest S st conn (''get_table_schema:'' @ name) =
     (st, map (Pair conn) (sendTableSchema S (mdb st) name))"
    by (rule handleRequest_schema)
  show "\<not> TableExists S d name \<or> (\<exists>err. showCreateTable S d name = Inl err) \<longrightarrow>
        (\<exists>detail. sendTableSchema S d name = [line ''error'' detail]) \<and>
        (\<forall>m \<in> set (sendTableSchema S d name).
           \<not> HasPrefix m ''create_table:'' \<and> \<not> HasPrefix m ''sync_data:'')"
  proof
    assume "\<not> TableExists S d name \<or> (\<exists>err. showCreateTable S d name = Inl err)"
    then have "\<exists>detail. sendTableSchema S d name = [line ''error'' detail]"
      by (rule sendTableSchema_unknown)
    then obtain detail where dt: "sendTableSchema S d name = [line ''error'' detail]" ..
    then have "\<exists>detail. sendTableSchema S d name = [line ''error'' detail]" by (rule exI)
    moreover have "\<forall>m \<in> set (sendTableSchema S d name).
           \<not> HasPrefix m ''create_table:'' \<and> \<not> HasPrefix m ''sync_data:''"
      using error_line_prefix [of detail] by (simp add: dt)
    ultimately show "(\<exists>detail. sendTableSchema S d name = [line ''error'' detail]) \<and>
        (\<forall>m \<in> set (sendTableSchema S d name).
           \<not> HasPrefix m ''create_table:'' \<and> \<not> HasPrefix m ''sync_data:'')"
      by (rule conjI)
  qed
  show "\<forall>n ddl. TableExists S d name \<and> showCreateTable S d name = Inr (n, ddl) \<longrightarrow>
        sendTableSchema S d name =
          line ''create_table'' (ReplaceAll ddl newline '' '') # sendTableData S d n \<and>
        sendTableSchema S d name = sendTable S d name"
    by (intro allI impI, elim conjE, intro conjI)
       (erule (1) sendTableSchema_known(1), erule (1) sendTableSchema_known(2))
  show "\<forall>n rowCount. countRows S d n = Inr rowCount \<and> 0 < rowCount \<longrightarrow>
        sendTableData S d n =
          concat (map (\<lambda>k. sendBatch S d n (100 * int k)) [0 ..< nat ((rowCount + 99) div 100)])"
    by (intro allI impI, elim conjE, erule (1) sendTableData_pages)
  show "\<forall>ddl cols rs. TableExists S d name \<and> holds S d name ddl cols rs \<longrightarrow>
        sendTableSchema S d name =
          line ''create_table'' (ReplaceAll ddl newline '' '') #
          map (\<lambda>r. line ''sync_data'' (insertStatement name cols r)) rs"
  proof (intro allI impI, elim conjE)
    fix ddl cols rs
    assume e: "TableExists S d name" and h: "holds S d name ddl cols rs"
    from h have sc: "showCreateTable S d name = Inr (name, ddl)" by (simp add: holds_def)
    show "sendTableSchema S d name =
          line ''create_table'' (ReplaceAll ddl newline '' '') #
          map (\<lambda>r. line ''sync_data'' (insertStatement name cols r)) rs"
      by (simp only: sendTableSchema_known(1) [OF e sc] sendTableData_holds [OF h])
  qed
qed

theorem sendTableSchema_reply_witness:
  "\<not> TableExists shop () ''orders''
   \<and> sendTableSchema shop () ''orders'' = [line ''error'' ''table 'orders' does not exist on master'']
   \<and> TableExists shop () ''users'' \<and> holds shop () ''users'' shopDDL [''id'', ''name''] shopRows
   \<and> sendTableSchema shop () ''users'' =
       line ''create_table'' (ReplaceAll shopDDL newline '' '') #
       map (\<lambda>r. line ''sync_data'' (insertStatement ''users'' [''id'', ''name''] r)) shopRows"
proof -
  have a: "\<not> TableExists shop () ''orders''" by (simp add: TableExists_def shop_def)
  have b: "TableExists shop () ''users''" by (simp add: TableExists_def shop_def)
  have h: "holds shop () ''users'' shopDDL [''id'', ''name''] shopRows" by (rule shop_holds)
  note o = sendTableSchema_reply [of shop "shopMaster" "0::nat" "''orders''" "()"]
  note u = sendTableSchema_reply [of shop "shopMaster" "0::nat" "''users''" "()"]
  from o have "\<not> TableExists shop () ''orders'' \<or> (\<exists>err. showCreateTable shop () ''orders'' = Inl err) \<longrightarrow>
        (\<exists>detail. sendTableSchema shop () ''orders'' = [line ''error'' detail]) \<and>
        (\<forall>m \<in> set (sendTableSchema shop () ''orders'').
           \<not> HasPrefix m ''create_table:'' \<and> \<not> HasPrefix m ''sync_data:'')"
    by (elim conjE)
  with a have "\<exists>detail. sendTableSchema shop () ''orders'' = [line ''error'' detail]"
    by (elim impE conjE) (rule disjI1)
  then have 1: "sendTableSchema shop () ''orders'' =
      [line ''error'' ''table 'orders' does not exist on master'']"
    by (simp add: sendTableSchema_def TableExists_def shop_def quote_def)
  from u have "\<forall>ddl cols rs. TableExists shop () ''users'' \<and> holds shop () ''users'' ddl cols rs \<longrightarrow>
        sendTableSchema shop () ''users'' =
          line ''create_table'' (ReplaceAll ddl newline '' '') #
          map (\<lambda>r. line ''sync_data'' (insertStatement ''users'' cols r)) rs"
    by (elim conjE)
  then have "TableExists shop () ''users'' \<and> holds shop () ''users'' shopDDL [''id'', ''name''] shopRows \<longrightarrow>
        sendTableSchema shop () ''users'' =
          line ''create_table'' (ReplaceAll shopDDL newline '' '') #
          map (\<lambda>r. line ''sync_data'' (insertStatement ''users'' [''id'', ''name''] r)) shopRows"
    by (elim allE)
  with b h have 2: "sendTableSchema shop () ''users'' =
       line ''create_table'' (ReplaceAll shopDDL newline '' '') #
       map (\<lambda>r. line ''sync_data'' (insertStatement ''users'' [''id'', ''name''] r)) shopRows"
    by (elim impE) (rule conjI)
  from a 1 b h 2 show ?thesis by (intro conjI)
qed

subsection \<open>Line feeds and carriage returns in the DDL\<close>

text \<open>
  Claim C6 asks that every \<^verbatim>\<open>create_table\<close> payload be free of line feeds and carriage
  returns.  \<^verbatim>\<open>CreateTable\<close> replaces both; \<^verbatim>\<open>sendSchemaToSlave\<close> and \<^verbatim>\<open>sendTableSchema\<close>
  replace the line feed only.  For a DDL whose first line ends in carriage return and
  line feed, the bootstrap and the reply to \<^verbatim>\<open>get_table_schema\<close> send a payload that
  still holds the carriage return, and \<^verbatim>\<open>CreateTable\<close> sends one that does not.
\<close>

theorem create_table_keeps_carriage_return:
  "sendSchemaToSlave shop () ''shop'' [''users''] ! 2 =
     line ''create_table''
       (''CREATE TABLE `users` ('' @ [carriageReturn] @ ''   `id` int,   `name` text)'')
   \<and> hd (sendTableSchema shop () ''users'') =
     line ''create_table''
       (''CREATE TABLE `users` ('' @ [carriageReturn] @ ''   `id` int,   `name` text)'')
   \<and> CreateTable shop shopMaster ''users'' [(''name'', 3)] =
     Inr (shopMaster,
          [(1, line ''notification'' ''Table created: users''),
           (2, line ''notification'' ''Table created: users''),
           (1, line ''create_table'' ''CREATE TABLE `users` (    `id` int,   `name` text)''),
           (2, line ''create_table'' ''CREATE TABLE `users` (    `id` int,   `name` text)'')])"
  using bootstrap_keeps_cr schema_reply_keeps_cr CreateTable_replaces_cr by (intro conjI)

subsection \<open>Statements submitted by a slave\<close>

lemma replicateTo_eq:
  "replicateTo registry conn stmt =
     map (\<lambda>c. (c, line ''replicate_query'' stmt)) (filter (\<lambda>c. c \<noteq> conn) (map snd registry))"
  by (induction registry) auto

lemma handleRequest_write:
  assumes "operation \<in> {''insert'', ''update'', ''delete''}"
  shows "handleRequest S st conn (operation @ '':'' @ stmt) = executeQuery S st stmt conn"
proof -
  from assms have "CHR '':'' \<notin> set operation" by auto
  then have "SplitN2 (operation @ '':'' @ stmt) (CHR '':'') = [operation, stmt]"
    by (rule SplitN2_colon)
  then show ?thesis using assms by (auto simp: handleRequest_def Let_def)
qed

lemma executeQuery_ok:
  "execute S (mdb st) stmt = Inr db' \<Longrightarrow>
   executeQuery S st stmt conn =
     (st\<lparr>mdb := db'\<rparr>,
      (conn, line ''success'' ''query executed'') #
      map (\<lambda>c. (c, line ''replicate_query'' stmt)) (filter (\<lambda>c. c \<noteq> conn) (map snd (slaves st))))"
  by (simp add: executeQuery_def replicateTo_eq)

lemma executeQuery_fail:
  "execute S (mdb st) stmt = Inl err \<Longrightarrow>
   executeQuery S st stmt conn = (st, [(conn, line ''error'' err)])"
  by (simp add: executeQuery_def)

lemma line_heads:
  "line ''success'' a \<noteq> line ''error'' b"
  "line ''success'' a \<noteq> line ''replicate_query'' b"
  "line ''error'' a \<noteq> line ''replicate_query'' b"
  "line ''error'' a \<noteq> line ''success'' b"
  "line ''replicate_query'' a \<noteq> line ''success'' b"
  "line ''replicate_query'' a \<noteq> line ''error'' b"
  by (simp_all add: line_def)

lemma line_inject: "line t a = line t b \<longleftrightarrow> a = b"
  by (simp add: line_def)

lemma executeQuery_replies:
  "((conn, line ''success'' ''query executed'') \<in> set (snd (executeQuery S st stmt conn))
      \<longleftrightarrow> (\<exists>db'. execute S (mdb st) stmt = Inr db'))
   \<and> ((\<exists>detail. (conn, line ''error'' detail) \<in> set (snd (executeQuery S st stmt conn)))
      \<longleftrightarrow> (\<exists>err. execute S (mdb st) stmt = Inl err))
   \<and> (\<forall>c. (c, line ''replicate_query'' stmt) \<in> set (snd (executeQuery S st stmt conn))
      \<longleftrightarrow> (\<exists>db'. execute S (mdb st) stmt = Inr db') \<and> c \<in> snd ` set (slaves st) \<and> c \<noteq> conn)"
proof (cases "execute S (mdb st) stmt")
  case (Inl err)
  then show ?thesis
    by (auto simp: executeQuery_fail line_heads)
next
  case (Inr db')
  then show ?thesis
    by (auto simp: executeQuery_ok line_heads line_inject image_iff)
qed

text \<open>
  Claim C2.  For a request \<^verbatim>\<open>insert:<stmt>\<close>, \<^verbatim>\<open>update:<stmt>\<close> or \<^verbatim>\<open>delete:<stmt>\<close> read
  from the connection \<open>conn\<close>, the master executes the statement.  When the execution
  succeeds it writes \<^verbatim>\<open>success:query executed\<close> to \<open>conn\<close> and then \<^verbatim>\<open>replicate_query:<stmt>\<close>
  to every registered connection other than \<open>conn\<close>, and nothing else; when it fails
  with the detail \<open>err\<close> it writes \<^verbatim>\<open>error:<err>\<close> to \<open>conn\<close> and nothing else.  So the
  success reply is written exactly when the execution succeeds, an error reply exactly
  when it fails, and a connection receives the statement exactly when the execution
  succeeds and the connection is registered and is not the requesting one.
\<close>

theorem write_request_replies:
  assumes "operation \<in> {''insert'', ''update'', ''delete''}"
  shows "(\<forall>db'. execute S (mdb st) stmt = Inr db' \<longrightarrow>
            handleRequest S st conn (operation @ '':'' @ stmt) =
              (st\<lparr>mdb := db'\<rparr>,
               (conn, line ''success'' ''query executed'') #
               map (\<lambda>c. (c, line ''replicate_query'' stmt))
                 (filter (\<lambda>c. c \<noteq> conn) (map snd (slaves st)))))
       \<and> (\<forall>err. execute S (mdb st) stmt = Inl err \<longrightarrow>
            handleRequest S st conn (operation @ '':'' @ stmt) = (st, [(conn, line ''error'' err)]))
       \<and> ((conn, line ''success'' ''query executed'')
              \<in> set (snd (handleRequest S st conn (operation @ '':'' @ stmt)))
            \<longleftrightarrow> (\<exists>db'. execute S (mdb st) stmt = Inr db'))
       \<and> ((\<exists>detail. (conn, line ''error'' detail)
              \<in> set (snd (handleRequest S st conn (operation @ '':'' @ stmt))))
            \<longleftrightarrow> (\<exists>err. execute S (mdb st) stmt = Inl err))
       \<and> (\<forall>c. (c, line ''replicate_query'' stmt)
              \<in> set (snd (handleRequest S st conn (operation @ '':'' @ stmt)))
            \<longleftrightarrow> (\<exists>db'. execute S (mdb st) stmt = Inr db') \<and>
                c \<in> snd ` set (slaves st) \<and> c \<noteq> conn)"
  unfolding handleRequest_write [OF assms]
  using executeQuery_replies [of conn S st stmt]
  by (intro conjI) (simp_all add: executeQuery_ok executeQuery_fail)

theorem write_request_replies_witness:
  "''insert'' \<in> {''insert'', ''update'', ''delete''}
   \<and> handleRequest shop shopMaster 1 (''insert:INSERT INTO users (name) VALUES (1)'') =
       (shopMaster,
        [(1, line ''success'' ''query executed''),
         (2, line ''replicate_query'' ''INSERT INTO users (name) VALUES (1)'')])
   \<and> handleRequest shop shopMaster 1 (''insert:INSERT INTO orders (total) VALUES (1)'') =
       (shopMaster, [(1, line ''error'' missingTable)])"
proof -
  have m: "''insert'' \<in> {''insert'', ''update'', ''delete''}" by simp
  have ok: "execute shop (mdb shopMaster) ''INSERT INTO users (name) VALUES (1)'' = Inr ()"
    by (simp add: shop_def HasPrefix_def)
  have bad: "execute shop (mdb shopMaster) ''INSERT INTO orders (total) VALUES (1)'' = Inl missingTable"
    by (simp add: shop_def HasPrefix_def)
  note a = write_request_replies [OF m, of shop shopMaster "''INSERT INTO users (name) VALUES (1)''" 1]
  note b = write_request_replies [OF m, of shop shopMaster "''INSERT INTO orders (total) VALUES (1)''" 1]
  from a have "\<forall>db'. execute shop (mdb shopMaster) ''INSERT INTO users (name) VALUES (1)'' = Inr db' \<longrightarrow>
            handleRequest shop shopMaster 1 (''insert'' @ '':'' @ ''INSERT INTO users (name) VALUES (1)'') =
              (shopMaster\<lparr>mdb := db'\<rparr>,
               (1, line ''success'' ''query executed'') #
               map (\<lambda>c. (c, line ''replicate_query'' ''INSERT INTO users (name) VALUES (1)''))
                 (filter (\<lambda>c. c \<noteq> 1) (map snd (slaves shopMaster))))"
    by (elim conjE)
  with ok have 1: "handleRequest shop shopMaster 1 (''insert:INSERT INTO users (name) VALUES (1)'') =
       (shopMaster,
        [(1, line ''success'' ''query executed''),
         (2, line ''replicate_query'' ''INSERT INTO users (name) VALUES (1)'')])"
    by (simp add: shopMaster_def)
  from b have "\<forall>err. execute shop (mdb shopMaster) ''INSERT INTO orders (total) VALUES (1)'' = Inl err \<longrightarrow>
            handleRequest shop shopMaster 1 (''insert'' @ '':'' @ ''INSERT INTO orders (total) VALUES (1)'') =
              (shopMaster, [(1, line ''error'' err)])"
    by (elim conjE)
  with bad have 2: "handleRequest shop shopMaster 1 (''insert:INSERT INTO orders (total) VALUES (1)'') =
       (shopMaster, [(1, line ''error'' missingTable)])"
    by simp
  from m 1 2 show ?thesis by (intro conjI)
qed

subsection \<open>The length of a protocol line\<close>

lemma scanLine_too_long:
  assumes "maxTokenSize \<le> length data" "newline \<notin> set data"
  shows "scanLine maxTokenSize (data @ newline # rest) = ErrTooLong"
proof -
  have "takeWhile (\<lambda>c. c \<noteq> newline) (data @ newline # rest) = data"
    using assms(2) by (induction data) auto
  then show ?thesis using assms(1) by (simp add: scanLine_def)
qed

lemma scanLine_accepts:
  assumes "length data < maxTokenSize" "newline \<notin> set data"
  shows "scanLine maxTokenSize (data @ newline # rest) = Token (dropCR data) rest"
proof -
  have "takeWhile (\<lambda>c. c \<noteq> newline) (data @ newline # rest) = data"
    using assms(2) by (induction data) auto
  then show ?thesis using assms(1) by (simp add: scanLine_def)
qed

lemma serve_too_long:
  assumes "masterMaxTokenSize \<le> length request" "newline \<notin> set request"
  shows "serve S st conn (request @ newline # rest) = (st, [])"
  using scanLine_too_long [OF assms] by (subst serve.simps) simp

text \<open>
  Claim C7 asks that both line readers accept lines of at least 1 MiB.  The slave sets
  the maximum token size of its scanner to 1 MiB, the master leaves the default of
  64 KiB in place.  A request of 1 MiB sent to the master, here an \<^verbatim>\<open>insert\<close> of that
  length, is not served: the scanner stops with \<^verbatim>\<open>ErrTooLong\<close>, the request loop ends
  without a reply, and whatever follows on the connection is not read.  The same holds
  for every request of 65536 bytes or more.  The slave's reader takes every line
  shorter than 1 MiB, and stops at a line of exactly 1 MiB.
\<close>

theorem master_reader_rejects_long_request:
  "serve S st conn (line ''insert'' (replicate (1024 * 1024) (CHR ''x'')) @ rest) = (st, [])
   \<and> scanLine masterMaxTokenSize (replicate 65536 (CHR ''x'') @ newline # rest) = ErrTooLong
   \<and> scanLine masterMaxTokenSize (replicate 65535 (CHR ''x'') @ newline # rest) =
       Token (replicate 65535 (CHR ''x'')) rest
   \<and> scanLine slaveMaxTokenSize (replicate (1024 * 1024) (CHR ''x'') @ newline # rest) = ErrTooLong
   \<and> scanLine slaveMaxTokenSize (replicate (1024 * 1024 - 1) (CHR ''x'') @ newline # rest) =
       Token (replicate (1024 * 1024 - 1) (CHR ''x'')) rest"
proof (intro conjI)
  have n: "newline \<notin> set (''insert'' @ '':'' @ replicate (1024 * 1024) (CHR ''x''))"
    by (simp add: newline_def)
  have l: "masterMaxTokenSize \<le> length (''insert'' @ '':'' @ replicate (1024 * 1024) (CHR ''x''))"
    by (simp add: masterMaxTokenSize_def MaxScanTokenSize_def)
  have "line ''insert'' (replicate (1024 * 1024) (CHR ''x'')) @ rest =
        (''insert'' @ '':'' @ replicate (1024 * 1024) (CHR ''x'')) @ newline # rest"
    by (simp add: line_def)
  then show "serve S st conn (line ''insert'' (replicate (1024 * 1024) (CHR ''x'')) @ rest) = (st, [])"
    using serve_too_long [OF l n] by simp
  have x: "newline \<notin> set (replicate k (CHR ''x''))" for k
    by (simp add: newline_def)
  have cr: "dropCR (replicate k (CHR ''x'')) = replicate k (CHR ''x'')" for k
    by (cases k) (simp_all add: dropCR_def carriageReturn_def)
  show "scanLine masterMaxTokenSize (replicate 65536 (CHR ''x'') @ newline # rest) = ErrTooLong"
    by (rule scanLine_too_long [OF _ x]) (simp add: masterMaxTokenSize_def MaxScanTokenSize_def)
  show "scanLine masterMaxTokenSize (replicate 65535 (CHR ''x'') @ newline # rest) =
       Token (replicate 65535 (CHR ''x'')) rest"
    using scanLine_accepts [OF _ x, of 65535 masterMaxTokenSize rest]
    by (simp add: masterMaxTokenSize_def MaxScanTokenSize_def cr)
  show "scanLine slaveMaxTokenSize (replicate (1024 * 1024) (CHR ''x'') @ newline # rest) = ErrTooLong"
    by (rule scanLine_too_long [OF _ x]) (simp add: slaveMaxTokenSize_def)
  show "scanLine slaveMaxTokenSize (replicate (1024 * 1024 - 1) (CHR ''x'') @ newline # rest) =
       Token (replicate (1024 * 1024 - 1) (CHR ''x'')) rest"
    using scanLine_accepts [OF _ x, of "1024 * 1024 - 1" slaveMaxTokenSize rest]
    by (simp add: slaveMaxTokenSize_def cr)
qed

subsection \<open>The slave applies a statement\<close>

lemma executeLocalQuery_fail:
  "db st = Some d \<Longrightarrow> execute S d stmt = Inl e \<Longrightarrow>
   executeLocalQuery S st stmt = (Some (''local query execution error: '' @ e), st, [stmt])"
  by (simp add: executeLocalQuery_def)

lemma missingTable_parts:
  "Split (''local query execution error: '' @ missingTable) quote =
     [''local query execution error: Error 1146 (42S02): Table '', ''shop.orders'', '' doesn'',
      ''t exist'']"
  by (simp add: missingTable_def quote_def)

lemma missingTable_contains:
  "Contains (''local query execution error: '' @ missingTable) ''Error 1146''"
  "Contains (''local query execution error: '' @ missingTable) ''doesn't exist''"
  by (simp_all add: missingTable_def HasPrefix_def)

lemma Split_no_sep: "sep \<notin> set s \<Longrightarrow> Split s sep = [s]"
  by (induction s) auto

lemma Split_nonempty: "Split s sep \<noteq> []"
  by (induction s) (auto split: list.splits)

lemma Split_length_sep: "sep \<in> set s \<Longrightarrow> 2 \<le> length (Split s sep)"
proof (induction s)
  case Nil
  then show ?case by simp
next
  case (Cons c s)
  show ?case
  proof (cases "c = sep")
    case True
    then show ?thesis using Split_nonempty [of s sep] by (cases "Split s sep") auto
  next
    case False
    with Cons show ?thesis by (auto split: list.splits)
  qed
qed

text \<open>
  Claim C9.  When a replicated statement fails locally with an error text that
  contains \<^verbatim>\<open>Error 1146\<close> and \<^verbatim>\<open>doesn't exist\<close> and splits at single quotes into at
  least four pieces, the fourth of which holds no dot, the slave reads element 1 of a
  one-element slice: the goroutine panics, nothing is written to the master and the
  receive loop does not continue.  The error text of MySQL for a missing table,
  \<^verbatim>\<open>Error 1146 (42S02): Table 'shop.orders' doesn't exist\<close>, is such a text: its fourth
  piece is \<^verbatim>\<open>t exist\<close>.
\<close>

theorem replicate_query_panics:
  assumes "db st = Some d" and "execute S d content = Inl e"
    and "Contains (''local query execution error: '' @ e) ''Error 1146''"
    and "Contains (''local query execution error: '' @ e) ''doesn't exist''"
    and "4 \<le> length (Split (''local query execution error: '' @ e) quote)"
    and "CHR ''.'' \<notin> set (Split (''local query execution error: '' @ e) quote ! 3)"
  shows "control (onReplicateQuery S st content) = Panic
       \<and> sent (onReplicateQuery S st content) = []
       \<and> applyMessage S st (''replicate_query:'' @ content) = Some (onReplicateQuery S st content)"
proof -
  have s: "Split (Split (''local query execution error: '' @ e) quote ! 3) (CHR ''.'') =
           [Split (''local query execution error: '' @ e) quote ! 3]"
    using assms(6) by (rule Split_no_sep)
  have a: "applyMessage S st (''replicate_query:'' @ content) = Some (onReplicateQuery S st content)"
    using SplitN2_colon [of "''replicate_query''" content]
    by (simp add: applyMessage_def Let_def)
  show ?thesis
    using assms(3,4,5) s a
    by (simp add: onReplicateQuery_def executeLocalQuery_fail [OF assms(1,2)] Let_def)
qed



theorem replicate_query_panics_witness:
  "db replica = Some ()
   \<and> execute shop () ''DELETE FROM orders WHERE id = 7'' = Inl missingTable
   \<and> Split (''local query execution error: '' @ missingTable) quote ! 3 = ''t exist''
   \<and> control (onReplicateQuery shop replica ''DELETE FROM orders WHERE id = 7'') = Panic
   \<and> sent (onReplicateQuery shop replica ''DELETE FROM orders WHERE id = 7'') = []"
proof -
  have 1: "db replica = Some ()" by (simp add: replica_def)
  have 2: "execute shop () ''DELETE FROM orders WHERE id = 7'' = Inl missingTable"
    by (simp add: shop_def HasPrefix_def)
  have 3: "Split (''local query execution error: '' @ missingTable) quote ! 3 = ''t exist''"
    by (simp only: missingTable_parts) simp
  have 4: "4 \<le> length (Split (''local query execution error: '' @ missingTable) quote)"
    by (simp only: missingTable_parts) simp
  have 5: "CHR ''.'' \<notin> set (Split (''local query execution error: '' @ missingTable) quote ! 3)"
    by (simp only: 3) simp
  note inst = replicate_query_panics [where st = replica and d = "()" and S = shop
      and content = "''DELETE FROM orders WHERE id = 7''" and e = missingTable,
      OF 1 2 missingTable_contains(1) missingTable_contains(2) 4 5]
  have 6: "control (onReplicateQuery shop replica ''DELETE FROM orders WHERE id = 7'') = Panic"
    by (rule inst [THEN conjunct1])
  have 7: "sent (onReplicateQuery shop replica ''DELETE FROM orders WHERE id = 7'') = []"
    by (rule inst [THEN conjunct2, THEN conjunct1])
  from 1 2 3 6 7 show ?thesis by (intro conjI)
qed

subsection \<open>The slave creates a table\<close>

lemma ReplaceAll_removes: "c \<notin> set (ReplaceAll s c [])"
  by (induction s) (auto simp: ReplaceAll_def)

lemma ReplaceAll_filter: "ReplaceAll s c [] = filter (\<lambda>x. x \<noteq> c) s"
  by (induction s) (auto simp: ReplaceAll_def)

lemma onCreateTable_executed:
  assumes "HasPrefix (ToUpper content) ''CREATE TABLE''"
  shows "executed (onCreateTable S st content) =
           (case db st of None \<Rightarrow> [] | Some d \<Rightarrow> [ReplaceAll content backtick []])"
  using assms
  by (simp add: onCreateTable_def executeCreateTable_def Let_def
           split: option.splits sum.splits prod.splits)

lemma applyMessage_create_table:
  "applyMessage S st (''create_table:'' @ content) = Some (onCreateTable S st content)"
  using SplitN2_colon [where op = "''create_table''" and rest = content]
  by (simp add: applyMessage_def Let_def)

lemma onCreateTable_rejected:
  "\<not> HasPrefix (ToUpper content) ''CREATE TABLE'' \<Longrightarrow> executed (onCreateTable S st content) = []"
  by (simp add: onCreateTable_def)

text \<open>
  Claim C10.  A \<^verbatim>\<open>create_table\<close> payload that begins with \<^verbatim>\<open>CREATE TABLE\<close> in any mix
  of cases is accepted, and the one statement the slave then executes (when it has a
  database) is the payload with every backtick removed; no other statement is
  executed, and a payload that does not begin so is not executed at all.  A DDL with
  quoted identifiers is therefore applied without the quotes:
  \<^verbatim>\<open>create table `order` (`id` int)\<close> is executed as \<^verbatim>\<open>create table order (id int)\<close>.
\<close>

theorem create_table_strips_backticks:
  assumes "HasPrefix (ToUpper content) ''CREATE TABLE''"
  shows "applyMessage S st (''create_table:'' @ content) = Some (onCreateTable S st content)
       \<and> (\<forall>d. db st = Some d \<longrightarrow>
             executed (onCreateTable S st content) = [filter (\<lambda>c. c \<noteq> backtick) content])
       \<and> (db st = None \<longrightarrow> executed (onCreateTable S st content) = [])
       \<and> set (executed (onCreateTable S st content)) \<subseteq> {filter (\<lambda>c. c \<noteq> backtick) content}
       \<and> (backtick \<in> set content \<longrightarrow>
             content \<notin> set (executed (onCreateTable S st content)))
       \<and> sent (onCreateTable S st content) = []
       \<and> control (onCreateTable S st content) = Continue"
proof (intro conjI)
  show "applyMessage S st (''create_table:'' @ content) = Some (onCreateTable S st content)"
    by (rule applyMessage_create_table)
  show "\<forall>d. db st = Some d \<longrightarrow>
             executed (onCreateTable S st content) = [filter (\<lambda>c. c \<noteq> backtick) content]"
    by (simp add: onCreateTable_executed [OF assms] ReplaceAll_filter)
  show "db st = None \<longrightarrow> executed (onCreateTable S st content) = []"
    by (simp add: onCreateTable_executed [OF assms])
  show "set (executed (onCreateTable S st content)) \<subseteq> {filter (\<lambda>c. c \<noteq> backtick) content}"
    by (cases "db st") (simp_all add: onCreateTable_executed [OF assms] ReplaceAll_filter)
  show "backtick \<in> set content \<longrightarrow> content \<notin> set (executed (onCreateTable S st content))"
  proof
    assume b: "backtick \<in> set content"
    have "filter (\<lambda>c. c \<noteq> backtick) content \<noteq> content"
    proof
      assume eq: "filter (\<lambda>c. c \<noteq> backtick) content = content"
      from b have "backtick \<in> set (filter (\<lambda>c. c \<noteq> backtick) content)"
        by (simp only: eq)
      then show False by simp
    qed
    then have ne: "content \<noteq> filter (\<lambda>c. c \<noteq> backtick) content" by (rule not_sym)
    show "content \<notin> set (executed (onCreateTable S st content))"
    proof (cases "db st")
      case None
      then have "executed (onCreateTable S st content) = []"
        by (simp add: onCreateTable_executed [OF assms])
      then show ?thesis by (simp only: list.set empty_iff not_False_eq_True)
    next
      case (Some d)
      then have "executed (onCreateTable S st content) = [filter (\<lambda>c. c \<noteq> backtick) content]"
        by (simp add: onCreateTable_executed [OF assms] ReplaceAll_filter)
      then show ?thesis using ne by (simp only: list.set insert_iff empty_iff simp_thms)
    qed
  qed
  show "sent (onCreateTable S st content) = []"
    by (simp add: onCreateTable_def split: prod.splits)
  show "control (onCreateTable S st content) = Continue"
    by (simp add: onCreateTable_def split: prod.splits)
qed

lemma order_prefix: "HasPrefix (ToUpper ''create table `order` (`id` int)'') ''CREATE TABLE''"
  by (simp add: HasPrefix_def upperByte_def)

theorem create_table_strips_backticks_witness:
  "HasPrefix (ToUpper ''create table `order` (`id` int)'') ''CREATE TABLE''
   \<and> db replica = Some ()
   \<and> executed (onCreateTable shop replica ''create table `order` (`id` int)'') =
       [''create table order (id int)'']"
proof -
  have d: "db replica = Some ()" by (simp add: replica_def)
  note inst = create_table_strips_backticks [where content = "''create table `order` (`id` int)''"
      and S = shop and st = replica, OF order_prefix]
  have "\<forall>d. db replica = Some d \<longrightarrow>
          executed (onCreateTable shop replica ''create table `order` (`id` int)'') =
            [filter (\<lambda>c. c \<noteq> backtick) ''create table `order` (`id` int)'']"
    by (rule inst [THEN conjunct2, THEN conjunct1])
  with d have "executed (onCreateTable shop replica ''create table `order` (`id` int)'') =
            [filter (\<lambda>c. c \<noteq> backtick) ''create table `order` (`id` int)'']"
    by simp
  then have e: "executed (onCreateTable shop replica ''create table `order` (`id` int)'') =
       [''create table order (id int)'']"
    by (simp add: backtick_def)
  from order_prefix d e show ?thesis by (intro conjI)
qed

subsection \<open>Recovery from a missing table\<close>

text \<open>
  Claim C4 asks that the slave send \<^verbatim>\<open>get_table_schema:<name>\<close> and go on whenever a
  \<^verbatim>\<open>sync_data\<close> or a \<^verbatim>\<open>replicate_query\<close> statement fails because the table is missing.
  For the \<^verbatim>\<open>INSERT\<close> statements that the master sends as \<^verbatim>\<open>sync_data\<close> it does.  For
  \<^verbatim>\<open>replicate_query\<close> it reads the table from the fourth piece of the error text split at
  single quotes, and in the text of the store,
  \<^verbatim>\<open>Error 1146 (42S02): Table 'shop.orders' doesn't exist\<close>, the quote of \<^verbatim>\<open>doesn't\<close> makes
  that piece \<^verbatim>\<open>t exist\<close> (the table is in the second piece): nothing stands after a dot,
  reading it panics, no request is sent and the receive loop ends with the link
  closed.
\<close>

theorem replicate_query_recovery_panics:
  "applyMessage shop replica ''replicate_query:DELETE FROM orders WHERE id = 7'' =
     Some \<lparr>after = replica\<lparr>connected := False\<rparr>, sent = [],
           executed = [''DELETE FROM orders WHERE id = 7''], control = Panic\<rparr>
   \<and> Split (''local query execution error: '' @ missingTable) quote =
       [''local query execution error: Error 1146 (42S02): Table '', ''shop.orders'',
        '' doesn'', ''t exist'']
   \<and> applyMessage shop replica ''sync_data:INSERT INTO orders (id, total) VALUES (1, 5)'' =
     Some \<lparr>after = replica, sent = [line ''get_table_schema'' ''orders''],
           executed = [''INSERT INTO orders (id, total) VALUES (1, 5)''], control = Continue\<rparr>"
proof (intro conjI)
  have r: "onReplicateQuery shop replica ''DELETE FROM orders WHERE id = 7'' =
     \<lparr>after = replica\<lparr>connected := False\<rparr>, sent = [],
      executed = [''DELETE FROM orders WHERE id = 7''], control = Panic\<rparr>"
    by (simp add: onReplicateQuery_def executeLocalQuery_def replica_def shop_def HasPrefix_def
        missingTable_def quote_def Let_def)
  have "applyMessage shop replica (''replicate_query:'' @ ''DELETE FROM orders WHERE id = 7'') =
        Some (onReplicateQuery shop replica ''DELETE FROM orders WHERE id = 7'')"
    using SplitN2_colon [where op = "''replicate_query''" and rest = "''DELETE FROM orders WHERE id = 7''"]
    by (simp add: applyMessage_def Let_def)
  then show "applyMessage shop replica ''replicate_query:DELETE FROM orders WHERE id = 7'' =
     Some \<lparr>after = replica\<lparr>connected := False\<rparr>, sent = [],
           executed = [''DELETE FROM orders WHERE id = 7''], control = Panic\<rparr>"
    by (simp add: r)
  show "Split (''local query execution error: '' @ missingTable) quote =
       [''local query execution error: Error 1146 (42S02): Table '', ''shop.orders'',
        '' doesn'', ''t exist'']"
    by (rule missingTable_parts)
  have s: "onSyncData shop replica ''INSERT INTO orders (id, total) VALUES (1, 5)'' =
     \<lparr>after = replica, sent = [line ''get_table_schema'' ''orders''],
      executed = [''INSERT INTO orders (id, total) VALUES (1, 5)''], control = Continue\<rparr>"
    by (simp add: onSyncData_def executeLocalQuery_def replica_def shop_def HasPrefix_def
        missingTable_def upperByte_def Fields_def spaceWidth_def TrimSpace_def
        spaceWidthLast_def Let_def)
  have "applyMessage shop replica (''sync_data:'' @ ''INSERT INTO orders (id, total) VALUES (1, 5)'') =
        Some (onSyncData shop replica ''INSERT INTO orders (id, total) VALUES (1, 5)'')"
    using SplitN2_colon [where op = "''sync_data''"
        and rest = "''INSERT INTO orders (id, total) VALUES (1, 5)''"]
    by (simp add: applyMessage_def Let_def)
  then show "applyMessage shop replica ''sync_data:INSERT INTO orders (id, total) VALUES (1, 5)'' =
     Some \<lparr>after = replica, sent = [line ''get_table_schema'' ''orders''],
           executed = [''INSERT INTO orders (id, total) VALUES (1, 5)''], control = Continue\<rparr>"
    by (simp add: s)
qed

subsection \<open>Reconnecting to the master\<close>

lemma step_idle:
  assumes "supervisor a = NotSpawned \<or> supervisor a = Exited" "step a e = Some a'"
  shows "e = LinkDown \<and> supervisor a' = supervisor a"
  using assms by (cases e) (auto split: if_splits)

lemma run_idle:
  "supervisor a = NotSpawned \<or> supervisor a = Exited \<Longrightarrow> run a es = Some a' \<Longrightarrow>
   supervisor a' = supervisor a \<and> (\<forall>e \<in> set es. e = LinkDown)"
proof (induction es arbitrary: a)
  case Nil
  then show ?case by simp
next
  case (Cons e es)
  from Cons.prems(2) obtain b where b: "step a e = Some b" "run b es = Some a'"
    by (auto split: option.splits)
  from step_idle [OF Cons.prems(1) b(1)] have e: "e = LinkDown" and s: "supervisor b = supervisor a"
    by simp_all
  from Cons.IH [of b] Cons.prems(1) s b(2)
  have "supervisor a' = supervisor b \<and> (\<forall>e \<in> set es. e = LinkDown)" by simp
  with e s show ?case by simp
qed

lemma retry_round:
  assumes "supervisor a = LoopHead" "\<not> connected a"
  shows "run a [LoopTest, Sleep 5, Redial False] = Some a"
  using assms by (simp add: connectToMaster_def)

lemma run_append: "run a (es @ fs) = (case run a es of None \<Rightarrow> None | Some b \<Rightarrow> run b fs)"
  by (induction es arbitrary: a) (auto split: option.splits)

lemma retry_rounds:
  assumes "supervisor a = LoopHead" "\<not> connected a"
  shows "run a (concat (replicate n [LoopTest, Sleep 5, Redial False])) = Some a"
proof (induction n)
  case 0
  show ?case by simp
next
  case (Suc n)
  have "run a ([LoopTest, Sleep 5, Redial False] @ concat (replicate n [LoopTest, Sleep 5, Redial False]))
        = Some a"
    unfolding run_append retry_round [OF assms] using Suc by simp
  then show ?case by simp
qed

lemma retry_success:
  assumes "supervisor a = LoopHead" "\<not> connected a"
  shows "run a [LoopTest, Sleep 5, Redial True, LoopTest] =
           Some (a\<lparr>connected := True, listening := True, supervisor := Exited\<rparr>)"
  using assms by (simp add: connectToMaster_def)

lemma sleep_five: "step a (Sleep k) \<noteq> None \<Longrightarrow> k = 5"
  by (auto split: if_splits)

lemma first_dial:
  assumes "supervisor a = BeforeMain"
  shows "step a (InitialDial True) =
           Some (a\<lparr>connected := True, listening := True, supervisor := NotSpawned\<rparr>)"
    and "step a (InitialDial False) = Some (a\<lparr>supervisor := LoopHead\<rparr>)"
  using assms by (simp_all add: connectToMaster_def)

text \<open>
  Claim C8, as stated, fails: when the first dial succeeds and the link fails later, no
  supervisor exists, and no step of the agent dials again.
\<close>

theorem no_retry_after_link_failure:
  "run freshAgent [InitialDial True, LinkDown] = Some (freshAgent\<lparr>supervisor := NotSpawned\<rparr>)
   \<and> connected (freshAgent\<lparr>supervisor := NotSpawned\<rparr>) = False
   \<and> step (freshAgent\<lparr>supervisor := NotSpawned\<rparr>) LoopTest = None
   \<and> step (freshAgent\<lparr>supervisor := NotSpawned\<rparr>) (Sleep 5) = None
   \<and> step (freshAgent\<lparr>supervisor := NotSpawned\<rparr>) (Redial True) = None
   \<and> step (freshAgent\<lparr>supervisor := NotSpawned\<rparr>) (InitialDial True) = None
   \<and> step (freshAgent\<lparr>supervisor := NotSpawned\<rparr>) LinkDown = None"
  by (simp add: freshAgent_def connectToMaster_def)

text \<open>
  Claim C8, amended.  The supervisor is started only when the first dial of \<^verbatim>\<open>main\<close>
  fails.  While it runs and the link is not connected, it sleeps 5 seconds (never
  another length) and dials, any number of times in a row, each failed round leaving
  the agent as it was; after a dial that succeeds it finds the link connected and ends.
  Once it has ended, or when it was never started, every later step of the agent is a
  failure of the link: nothing dials again.
\<close>

theorem supervisor_retries_until_connected:
  "(supervisor a = BeforeMain \<longrightarrow>
      step a (InitialDial True) =
        Some (a\<lparr>connected := True, listening := True, supervisor := NotSpawned\<rparr>) \<and>
      step a (InitialDial False) = Some (a\<lparr>supervisor := LoopHead\<rparr>))
   \<and> (supervisor a = LoopHead \<and> \<not> connected a \<longrightarrow>
      (\<forall>n. run a (concat (replicate n [LoopTest, Sleep 5, Redial False])) = Some a) \<and>
      run a [LoopTest, Sleep 5, Redial True, LoopTest] =
        Some (a\<lparr>connected := True, listening := True, supervisor := Exited\<rparr>))
   \<and> (\<forall>k. step a (Sleep k) \<noteq> None \<longrightarrow> k = 5)
   \<and> (\<forall>es a'. (supervisor a = NotSpawned \<or> supervisor a = Exited) \<and> run a es = Some a' \<longrightarrow>
        supervisor a' = supervisor a \<and> (\<forall>e \<in> set es. e = LinkDown))"
proof (intro conjI)
  show "supervisor a = BeforeMain \<longrightarrow>
      step a (InitialDial True) =
        Some (a\<lparr>connected := True, listening := True, supervisor := NotSpawned\<rparr>) \<and>
      step a (InitialDial False) = Some (a\<lparr>supervisor := LoopHead\<rparr>)"
    using first_dial by blast
  show "supervisor a = LoopHead \<and> \<not> connected a \<longrightarrow>
      (\<forall>n. run a (concat (replicate n [LoopTest, Sleep 5, Redial False])) = Some a) \<and>
      run a [LoopTest, Sleep 5, Redial True, LoopTest] =
        Some (a\<lparr>connected := True, listening := True, supervisor := Exited\<rparr>)"
    using retry_rounds retry_success by blast
  show "\<forall>k. step a (Sleep k) \<noteq> None \<longrightarrow> k = 5"
    using sleep_five by blast
  show "\<forall>es a'. (supervisor a = NotSpawned \<or> supervisor a = Exited) \<and> run a es = Some a' \<longrightarrow>
        supervisor a' = supervisor a \<and> (\<forall>e \<in> set es. e = LinkDown)"
    using run_idle by blast
qed

theorem supervisor_retries_until_connected_witness:
  "supervisor freshAgent = BeforeMain
   \<and> step freshAgent (InitialDial False) = Some (freshAgent\<lparr>supervisor := LoopHead\<rparr>)
   \<and> supervisor (freshAgent\<lparr>supervisor := LoopHead\<rparr>) = LoopHead
   \<and> \<not> connected (freshAgent\<lparr>supervisor := LoopHead\<rparr>)
   \<and> run (freshAgent\<lparr>supervisor := LoopHead\<rparr>)
         (concat (replicate 3 [LoopTest, Sleep 5, Redial False])) =
       Some (freshAgent\<lparr>supervisor := LoopHead\<rparr>)
   \<and> run (freshAgent\<lparr>supervisor := LoopHead\<rparr>) [LoopTest, Sleep 5, Redial True, LoopTest] =
       Some (freshAgent\<lparr>connected := True, listening := True, supervisor := Exited\<rparr>)
   \<and> step (freshAgent\<lparr>supervisor := Sleeping\<rparr>) (Sleep 5) \<noteq> None
   \<and> run (freshAgent\<lparr>connected := True, listening := True, supervisor := Exited\<rparr>) [LinkDown] =
       Some (freshAgent\<lparr>supervisor := Exited\<rparr>)
   \<and> supervisor (freshAgent\<lparr>supervisor := Exited\<rparr>) = Exited"
proof -
  have 1: "supervisor freshAgent = BeforeMain" by (simp add: freshAgent_def)
  note i = supervisor_retries_until_connected [where a = freshAgent]
  from i 1 have 2: "step freshAgent (InitialDial False) = Some (freshAgent\<lparr>supervisor := LoopHead\<rparr>)"
    by blast
  have 3: "supervisor (freshAgent\<lparr>supervisor := LoopHead\<rparr>) = LoopHead" by simp
  have 4: "\<not> connected (freshAgent\<lparr>supervisor := LoopHead\<rparr>)" by (simp add: freshAgent_def)
  note l = supervisor_retries_until_connected [where a = "freshAgent\<lparr>supervisor := LoopHead\<rparr>"]
  from l 3 4 have 5: "run (freshAgent\<lparr>supervisor := LoopHead\<rparr>)
         (concat (replicate 3 [LoopTest, Sleep 5, Redial False])) =
       Some (freshAgent\<lparr>supervisor := LoopHead\<rparr>)"
    by blast
  from l 3 4 have "run (freshAgent\<lparr>supervisor := LoopHead\<rparr>) [LoopTest, Sleep 5, Redial True, LoopTest] =
       Some (freshAgent\<lparr>supervisor := LoopHead, connected := True, listening := True, supervisor := Exited\<rparr>)"
    by blast
  then have 6: "run (freshAgent\<lparr>supervisor := LoopHead\<rparr>) [LoopTest, Sleep 5, Redial True, LoopTest] =
       Some (freshAgent\<lparr>connected := True, listening := True, supervisor := Exited\<rparr>)"
    by simp
  have 7: "step (freshAgent\<lparr>supervisor := Sleeping\<rparr>) (Sleep 5) \<noteq> None" by simp
  have 8: "run (freshAgent\<lparr>connected := True, listening := True, supervisor := Exited\<rparr>) [LinkDown] =
       Some (freshAgent\<lparr>supervisor := Exited\<rparr>)"
    by (simp add: freshAgent_def)
  note x = supervisor_retries_until_connected
    [where a = "freshAgent\<lparr>connected := True, listening := True, supervisor := Exited\<rparr>"]
  from x 8 have "supervisor (freshAgent\<lparr>supervisor := Exited\<rparr>) =
      supervisor (freshAgent\<lparr>connected := True, listening := True, supervisor := Exited\<rparr>)"
    by (elim conjE) (drule spec, drule spec, erule impE, rule conjI, rule disjI2, simp, assumption, elim conjE, assumption)
  then have 9: "supervisor (freshAgent\<lparr>supervisor := Exited\<rparr>) = Exited" by simp
  from 1 2 3 4 5 6 7 8 9 show ?thesis by (intro conjI)
qed

end
